theory Spec2Isabelle
  imports Complex_Main
begin

section \<open>Go values used by the two packages\<close>

text \<open>
  A Go \<open>error\<close> is either \<open>nil\<close> (\<open>None\<close>) or a value; \<open>fmt.Errorf\<close> with the verb
  \<open>%w\<close> wraps an error under a message. A function returning \<open>(T, error)\<close> is modelled
  as returning a pair, as the Go code does: on the error paths the first component is
  the zero value the source returns there.
\<close>

datatype error = Err string | Wrapf string error

subsection \<open>strings.ReplaceAll and strings.ToLower\<close>

text \<open>
  \<open>strings.ReplaceAll s old new\<close> replaces the non-overlapping occurrences of \<open>old\<close>
  in \<open>s\<close>, scanning from the left. With an empty \<open>old\<close> Go inserts \<open>new\<close> before
  every character and at the end (characters are bytes here); the program never
  calls it with an empty \<open>old\<close>.
\<close>

function ReplaceAll :: "string \<Rightarrow> string \<Rightarrow> string \<Rightarrow> string" where
  "ReplaceAll s old new =
     (if old = [] then new @ concat (map (\<lambda>c. c # new) s)
      else if s = [] then []
      else if take (length old) s = old
        then new @ ReplaceAll (drop (length old) s) old new
      else hd s # ReplaceAll (tl s) old new)"
  by pat_completeness auto
termination
  by (relation "measure (\<lambda>(s, old, new). length s)") auto

declare ReplaceAll.simps [simp del]

text \<open>\<open>strings.ToLower\<close> on the ASCII letters; other bytes are left as they are.\<close>

definition lower_char :: "char \<Rightarrow> char" where
  "lower_char c =
     (let n = (of_char c :: nat) in if 65 \<le> n \<and> n \<le> 90 then char_of (n + 32) else c)"

definition ToLower :: "string \<Rightarrow> string" where
  "ToLower s = map lower_char s"

text \<open>
  The verb \<open>%q\<close> of \<open>fmt.Sprintf\<close>: the string between double quotes, with the double
  quote and the backslash escaped (the other escapes of \<open>strconv.Quote\<close> concern
  non-printable characters, which no mutant identifier contains).
\<close>

definition quoted :: "string \<Rightarrow> string" where
  "quoted s =
     CHR 0x22 # concat (map (\<lambda>c. if c = CHR 0x22 \<or> c = CHR 0x5C then [CHR 0x5C, c] else [c]) s)
       @ [CHR 0x22]"

section \<open>The unleash command: flags\<close>

datatype flag_value = BoolV bool | StringV string | Float64V real

record Flag =
  Name :: string
  CfgKey :: string
  Shorthand :: string
  DefaultV :: flag_value
  Usage :: string

text \<open>
  The part of \<open>cobra.Command\<close> the file touches: the \<open>Use\<close> line, the aliases, the
  \<open>SortFlags\<close> switch of its flag set, the normalisation function installed on the
  flag set and the flags registered so far.
\<close>

record Command =
  Use :: string
  Aliases :: "string list"
  SortFlags :: bool
  NormalizeFunc :: "(string \<Rightarrow> string) option"
  flags :: "Flag list"

text \<open>
  The configuration keys are constants of the package \<open>configuration\<close>, and the
  catalog of mutant kinds (\<open>mutant.MutantTypes\<close>, \<open>mt.String()\<close>,
  \<open>configuration.IsDefaultEnabled\<close>, \<open>configuration.MutantTypeEnabledKey\<close>) lives in
  other packages: both are parameters of the model.
\<close>

record config_keys =
  UnleashDryRunKey :: string
  UnleashTagsKey :: string
  UnleashOutputKey :: string
  UnleashThresholdEfficacyKey :: string
  UnleashThresholdMCoverageKey :: string

record 'mt catalog =
  MutantTypes :: "'mt list"
  String :: "'mt \<Rightarrow> string"
  IsDefaultEnabled :: "'mt \<Rightarrow> bool"
  MutantTypeEnabledKey :: "'mt \<Rightarrow> string"

text \<open>
  \<open>flags.Set\<close> (package \<open>cmd/internal/flags\<close>) registers the flag on the command and
  binds it to its configuration key, or returns an error. Whether it fails is decided
  outside this file: \<open>set_err\<close> is that decision, given the command and the flag.
\<close>

definition flags_Set ::
  "(Command \<Rightarrow> Flag \<Rightarrow> error option) \<Rightarrow> Command \<Rightarrow> Flag \<Rightarrow> error option \<times> Command" where
  "flags_Set set_err cmd f =
     (case set_err cmd f of
        Some e \<Rightarrow> (Some e, cmd)
      | None \<Rightarrow> (None, cmd\<lparr>flags := flags cmd @ [f]\<rparr>))"

definition commandName :: string where "commandName = ''unleash''"
definition paramBuildTags :: string where "paramBuildTags = ''tags''"
definition paramDryRun :: string where "paramDryRun = ''dry-run''"
definition paramOutput :: string where "paramOutput = ''output''"
definition paramThresholdEfficacy :: string where "paramThresholdEfficacy = ''threshold-efficacy''"
definition paramThresholdMCoverage :: string where "paramThresholdMCoverage = ''threshold-mcover''"

text \<open>The function given to \<open>SetNormalizeFunc\<close>: one \<open>ReplaceAll\<close> per separator.\<close>

definition normalizeName :: "string \<Rightarrow> string" where
  "normalizeName name = fold (\<lambda>sep n. ReplaceAll n sep ''-'') [''.'', ''_''] name"

text \<open>The flag built in the body of the loop of \<open>setMutantTypeFlags\<close>.\<close>

definition mutantTypeFlag :: "'mt catalog \<Rightarrow> 'mt \<Rightarrow> Flag" where
  "mutantTypeFlag cat mt =
     (let name = String cat mt;
          usage = ''enable '' @ quoted name @ '' mutants'';
          param = ReplaceAll name ''_'' ''-'';
          param = ToLower param;
          confKey = MutantTypeEnabledKey cat mt
      in \<lparr>Name = param, CfgKey = confKey, Shorthand = '''',
          DefaultV = BoolV (IsDefaultEnabled cat mt), Usage = usage\<rparr>)"

text \<open>The two loops over flags return at the first error of \<open>flags.Set\<close>.\<close>

fun setMutantTypeFlags_loop ::
  "(Command \<Rightarrow> Flag \<Rightarrow> error option) \<Rightarrow> 'mt catalog \<Rightarrow> 'mt list \<Rightarrow> Command
     \<Rightarrow> error option \<times> Command" where
  "setMutantTypeFlags_loop set_err cat [] cmd = (None, cmd)"
| "setMutantTypeFlags_loop set_err cat (mt # mts) cmd =
     (case flags_Set set_err cmd (mutantTypeFlag cat mt) of
        (Some e, cmd') \<Rightarrow> (Some e, cmd')
      | (None, cmd') \<Rightarrow> setMutantTypeFlags_loop set_err cat mts cmd')"

definition setMutantTypeFlags ::
  "(Command \<Rightarrow> Flag \<Rightarrow> error option) \<Rightarrow> 'mt catalog \<Rightarrow> Command \<Rightarrow> error option \<times> Command" where
  "setMutantTypeFlags set_err cat cmd = setMutantTypeFlags_loop set_err cat (MutantTypes cat) cmd"

definition fls :: "config_keys \<Rightarrow> Flag list" where
  "fls keys =
     [\<lparr>Name = paramDryRun, CfgKey = UnleashDryRunKey keys, Shorthand = ''d'',
        DefaultV = BoolV False, Usage = ''find mutations but do not executes tests''\<rparr>,
      \<lparr>Name = paramBuildTags, CfgKey = UnleashTagsKey keys, Shorthand = ''t'',
        DefaultV = StringV '''', Usage = ''a comma-separated list of build tags''\<rparr>,
      \<lparr>Name = paramOutput, CfgKey = UnleashOutputKey keys, Shorthand = ''o'',
        DefaultV = StringV '''', Usage = ''set the output file for machine readable results''\<rparr>,
      \<lparr>Name = paramThresholdEfficacy, CfgKey = UnleashThresholdEfficacyKey keys, Shorthand = '''',
        DefaultV = Float64V 0, Usage = ''threshold for code-efficacy percent''\<rparr>,
      \<lparr>Name = paramThresholdMCoverage, CfgKey = UnleashThresholdMCoverageKey keys, Shorthand = '''',
        DefaultV = Float64V 0, Usage = ''threshold for mutant-coverage percent''\<rparr>]"

fun setFlags_loop ::
  "(Command \<Rightarrow> Flag \<Rightarrow> error option) \<Rightarrow> Flag list \<Rightarrow> Command \<Rightarrow> error option \<times> Command" where
  "setFlags_loop set_err [] cmd = (None, cmd)"
| "setFlags_loop set_err (f # fs) cmd =
     (case flags_Set set_err cmd f of
        (Some e, cmd') \<Rightarrow> (Some e, cmd')
      | (None, cmd') \<Rightarrow> setFlags_loop set_err fs cmd')"

definition setFlagsOnCmd ::
  "(Command \<Rightarrow> Flag \<Rightarrow> error option) \<Rightarrow> config_keys \<Rightarrow> 'mt catalog \<Rightarrow> Command
     \<Rightarrow> error option \<times> Command" where
  "setFlagsOnCmd set_err keys cat cmd0 =
     (let cmd1 = cmd0\<lparr>SortFlags := False\<rparr>;
          cmd2 = cmd1\<lparr>NormalizeFunc := Some normalizeName\<rparr>
      in case setFlags_loop set_err (fls keys) cmd2 of
           (Some e, cmd3) \<Rightarrow> (Some e, cmd3)
         | (None, cmd3) \<Rightarrow> setMutantTypeFlags set_err cat cmd3)"

text \<open>
  \<open>newUnleashCmd\<close>: the command with its flags, or \<open>nil\<close> and the error of
  \<open>setFlagsOnCmd\<close>.
\<close>

definition newUnleashCmd ::
  "(Command \<Rightarrow> Flag \<Rightarrow> error option) \<Rightarrow> config_keys \<Rightarrow> 'mt catalog
     \<Rightarrow> Command option \<times> error option" where
  "newUnleashCmd set_err keys cat =
     (let cmd = \<lparr>Use = commandName @ '' [path]'', Aliases = [''run'', ''r''], SortFlags = True,
                 NormalizeFunc = None, flags = []\<rparr>
      in case setFlagsOnCmd set_err keys cat cmd of
           (Some err, _) \<Rightarrow> (None, Some err)
         | (None, cmd') \<Rightarrow> (Some cmd', None))"

section \<open>The world outside the program\<close>

text \<open>
  The calls that leave the program are recorded as events. The state of the world is
  the process working directory, the directories that exist under the temporary
  directory, a clock in nanoseconds and the trace of the events so far. Log output is
  not part of the state.
\<close>

datatype event =
    EvGetwd
  | EvChdir string
  | EvMkdirTemp string string
  | EvRemoveAll string
  | EvCmdRun string "string list"
  | EvOpen string
  | EvClose "string option"
  | EvParseProfiles
  | EvModuleInit string
  | EvMutatorRun
  | EvReport

record world =
  cwd :: string
  dirs :: "string list"
  clock :: int
  trace :: "event list"

text \<open>Module descriptor of \<open>internal/gomodule\<close>: the three fields the sources read.\<close>

record GoModule =
  Name :: string
  Root :: string
  PkgDir :: string

text \<open>\<open>cover.ProfileBlock\<close> and \<open>cover.Profile\<close> of \<open>golang.org/x/tools/cover\<close>.\<close>

record ProfileBlock =
  StartLine :: int
  StartCol :: int
  EndLine :: int
  EndCol :: int
  NumStmt :: int
  Count :: int

record cover_Profile =
  FileName :: string
  Mode :: string
  Blocks :: "ProfileBlock list"

text \<open>
  The package's own \<open>Block\<close> and \<open>Profile\<close> (\<open>map[string][]Block\<close>; a \<open>nil\<close> map
  reads as the empty map).
\<close>

record Block =
  StartLine :: int
  StartCol :: int
  EndLine :: int
  EndCol :: int

type_synonym Profile = "string \<rightharpoonup> Block list"

record Result =
  Profile :: Profile
  Elapsed :: int

datatype MutantStatus = NotCovered | Runnable | Lived | Killed | NotViable | TimedOut

text \<open>
  Modelled from the spec: \<open>report.Results\<close> is declared in the package \<open>pkg/report\<close>,
  which is not among the sources: the outcomes of the mutants and the elapsed time of
  the mutation phase.
\<close>

record Results =
  Mutants :: "MutantStatus list"
  MutantsElapsed :: int

definition no_Results :: Results where
  "no_Results = \<lparr>Mutants = [], MutantsElapsed = 0\<rparr>"

text \<open>
  How the cancellation context behaves during one run: it never fires; it fires and
  the goroutine started by \<open>runWithCancel\<close> has called \<open>onCancel\<close> by the time the
  command reads \<open>cancelled\<close>; or it fires and that goroutine has not yet done so
  (nothing orders the two).
\<close>

datatype signal = NoSignal | SignalSeen | SignalLate

text \<open>
  What the world answers. Every field is the outcome of a call the sources make to
  the operating system, the Go toolchain, the standard library or a package of the
  repository that is not among the sources; \<open>step_time\<close> is the time each call takes.
\<close>

record env =
  getwd_err :: "error option"
  filepath_Abs :: "string \<Rightarrow> string \<Rightarrow> string"
  filepath_Rel :: "string \<Rightarrow> string \<Rightarrow> string \<times> error option"
  chdir_err :: "string \<Rightarrow> error option"
  TempDir :: string
  mkdirtemp_res :: "error + string"
  removeall_err :: "string \<Rightarrow> error option"
  exec_Command :: "string \<Rightarrow> string list \<Rightarrow> error option"
  open_res :: "string \<Rightarrow> error + string"
  ParseProfilesFromReader :: "string \<Rightarrow> cover_Profile list \<times> error option"
  config_string :: "string \<Rightarrow> string"
  gomodule_Init :: "string \<Rightarrow> GoModule \<times> error option"
  mutator_Run :: "signal \<Rightarrow> GoModule \<Rightarrow> Result \<Rightarrow> string \<Rightarrow> Results"
  report_Do :: "Results \<Rightarrow> error option"
  step_time :: "event \<Rightarrow> int"

definition happens :: "env \<Rightarrow> event \<Rightarrow> world \<Rightarrow> world" where
  "happens E ev w = w\<lparr>clock := clock w + step_time E ev, trace := trace w @ [ev]\<rparr>"

subsection \<open>Operating system calls\<close>

definition Getwd :: "env \<Rightarrow> world \<Rightarrow> (string \<times> error option) \<times> world" where
  "Getwd E w =
     (case getwd_err E of
        Some e \<Rightarrow> (('''', Some e), happens E EvGetwd w)
      | None \<Rightarrow> ((cwd w, None), happens E EvGetwd w))"

text \<open>The directories given to \<open>os.Chdir\<close> come from \<open>os.Getwd\<close> and \<open>filepath.Abs\<close>.\<close>

definition Chdir :: "env \<Rightarrow> string \<Rightarrow> world \<Rightarrow> error option \<times> world" where
  "Chdir E dir w =
     (case chdir_err E dir of
        Some e \<Rightarrow> (Some e, happens E (EvChdir dir) w)
      | None \<Rightarrow> (None, happens E (EvChdir dir) (w\<lparr>cwd := dir\<rparr>)))"

definition joinPath :: "string \<Rightarrow> string \<Rightarrow> string" where
  "joinPath dir name =
     (if dir \<noteq> [] \<and> last dir = CHR ''/'' then dir @ name else dir @ ''/'' @ name)"

text \<open>
  \<open>os.MkdirTemp dir pattern\<close>: a new directory whose name is the pattern followed by
  a random string (the pattern here has no \<open>*\<close>).
\<close>

definition MkdirTemp :: "env \<Rightarrow> string \<Rightarrow> string \<Rightarrow> world \<Rightarrow> (string \<times> error option) \<times> world" where
  "MkdirTemp E dir pattern w =
     (case mkdirtemp_res E of
        Inl e \<Rightarrow> (('''', Some e), happens E (EvMkdirTemp dir pattern) w)
      | Inr rnd \<Rightarrow>
          (let name = joinPath dir (pattern @ rnd)
           in ((name, None), happens E (EvMkdirTemp dir pattern) (w\<lparr>dirs := dirs w @ [name]\<rparr>))))"

definition inside :: "string \<Rightarrow> string \<Rightarrow> bool" where
  "inside wd d = (d = wd \<or> take (length wd + 1) d = wd @ ''/'')"

definition RemoveAll :: "env \<Rightarrow> string \<Rightarrow> world \<Rightarrow> error option \<times> world" where
  "RemoveAll E path w =
     (case removeall_err E path of
        Some e \<Rightarrow> (Some e, happens E (EvRemoveAll path) w)
      | None \<Rightarrow>
          (None, happens E (EvRemoveAll path) (w\<lparr>dirs := filter (\<lambda>d. \<not> inside path d) (dirs w)\<rparr>)))"

text \<open>
  \<open>os.Open\<close> returns a \<open>nil\<close> handle with the error; \<open>Close\<close> on a \<open>nil\<close> handle
  returns \<open>ErrInvalid\<close>.
\<close>

record File =
  fname :: string
  fdata :: string

definition ErrInvalid :: error where
  "ErrInvalid = Err ''invalid argument''"

definition Open :: "env \<Rightarrow> string \<Rightarrow> world \<Rightarrow> (File option \<times> error option) \<times> world" where
  "Open E name w =
     (case open_res E name of
        Inl e \<Rightarrow> ((None, Some e), happens E (EvOpen name) w)
      | Inr d \<Rightarrow> ((Some \<lparr>fname = name, fdata = d\<rparr>, None), happens E (EvOpen name) w))"

definition Close :: "env \<Rightarrow> File option \<Rightarrow> world \<Rightarrow> error option \<times> world" where
  "Close E f w =
     (case f of
        None \<Rightarrow> (Some ErrInvalid, happens E (EvClose None) w)
      | Some h \<Rightarrow> (None, happens E (EvClose (Some (fname h))) w))"

text \<open>\<open>cmd.Run()\<close> on the command an \<open>execContext\<close> built.\<close>

definition cmd_Run ::
  "env \<Rightarrow> (string \<Rightarrow> string list \<Rightarrow> error option) \<Rightarrow> string \<Rightarrow> string list \<Rightarrow> world
     \<Rightarrow> error option \<times> world" where
  "cmd_Run E cmdContext name args w = (cmdContext name args, happens E (EvCmdRun name args) w)"

section \<open>Package coverage\<close>

record Coverage =
  cmdContext :: "string \<Rightarrow> string list \<Rightarrow> error option"
  workDir :: string
  path :: string
  fileName :: string
  module :: GoModule
  buildTags :: string

text \<open>
  \<open>NewWithCmd\<close> reads the build tags from the configuration store under
  \<open>configuration.UnleashTagsKey\<close> and applies the options in order; \<open>New\<close> runs the
  commands on the operating system.
\<close>

definition NewWithCmd ::
  "env \<Rightarrow> config_keys \<Rightarrow> (string \<Rightarrow> string list \<Rightarrow> error option) \<Rightarrow> string \<Rightarrow> GoModule
     \<Rightarrow> (Coverage \<Rightarrow> Coverage) list \<Rightarrow> Coverage" where
  "NewWithCmd E keys ctx workdir m opts =
     (let tags = config_string E (UnleashTagsKey keys);
          c = \<lparr>cmdContext = ctx, workDir = workdir, path = ''./...'', fileName = ''coverage'',
               module = m, buildTags = tags\<rparr>
      in fold (\<lambda>opt c. opt c) opts c)"

definition New ::
  "env \<Rightarrow> config_keys \<Rightarrow> string \<Rightarrow> GoModule \<Rightarrow> (Coverage \<Rightarrow> Coverage) list \<Rightarrow> Coverage" where
  "New E keys workdir m opts = NewWithCmd E keys (exec_Command E) workdir m opts"

definition filePath :: "Coverage \<Rightarrow> string" where
  "filePath c = workDir c @ ''/'' @ fileName c"

definition downloadModules :: "env \<Rightarrow> Coverage \<Rightarrow> world \<Rightarrow> error option \<times> world" where
  "downloadModules E c w = cmd_Run E (cmdContext c) ''go'' [''mod'', ''download''] w"

text \<open>The arguments \<open>executeCoverage\<close> builds for the \<open>go\<close> command.\<close>

definition coverageArgs :: "Coverage \<Rightarrow> string list" where
  "coverageArgs c =
     (let args = [''test''];
          args = (if buildTags c \<noteq> '''' then args @ [''-tags'', buildTags c] else args);
          args = args @ [''-cover'', ''-coverprofile'', filePath c, path c]
      in args)"

text \<open>
  \<open>executeCoverage\<close>: \<open>time.Now()\<close> is read after the command is built and
  \<open>time.Since(start)\<close> after it has run; a failing command gives the duration 0.
\<close>

definition executeCoverage :: "env \<Rightarrow> Coverage \<Rightarrow> world \<Rightarrow> (int \<times> error option) \<times> world" where
  "executeCoverage E c w =
     (let args = coverageArgs c;
          start = clock w;
          (err, w') = cmd_Run E (cmdContext c) ''go'' args w
      in case err of
           Some e \<Rightarrow> ((0, Some e), w')
         | None \<Rightarrow> ((clock w' - start, None), w'))"

text \<open>
  \<open>removeModuleFromPath\<close>: every occurrence of the module name followed by a slash
  is removed from the file name, and the result is made relative to the package
  directory; the error of \<open>filepath.Rel\<close> is dropped, the path it returns is kept.
\<close>

definition removeModuleFromPath :: "env \<Rightarrow> Coverage \<Rightarrow> cover_Profile \<Rightarrow> string" where
  "removeModuleFromPath E c p =
     (let pth = ReplaceAll (FileName p) (Name (module c) @ ''/'') '''';
          (pth, _) = filepath_Rel E (PkgDir (module c)) pth
      in pth)"

text \<open>The inner and the outer loop of \<open>parse\<close>, on the map \<open>status\<close>.\<close>

fun parse_blocks ::
  "env \<Rightarrow> Coverage \<Rightarrow> cover_Profile \<Rightarrow> ProfileBlock list \<Rightarrow> Profile \<Rightarrow> Profile" where
  "parse_blocks E c p [] status = status"
| "parse_blocks E c p (b # bs) status =
     (if Count b = 0 then parse_blocks E c p bs status
      else
        (let block = \<lparr>StartLine = ProfileBlock.StartLine b, StartCol = ProfileBlock.StartCol b,
                      EndLine = ProfileBlock.EndLine b, EndCol = ProfileBlock.EndCol b\<rparr>;
             fn = removeModuleFromPath E c p
         in parse_blocks E c p bs
              (status(fn \<mapsto> (case status fn of None \<Rightarrow> [] | Some bl \<Rightarrow> bl) @ [block]))))"

fun parse_profiles :: "env \<Rightarrow> Coverage \<Rightarrow> cover_Profile list \<Rightarrow> Profile \<Rightarrow> Profile" where
  "parse_profiles E c [] status = status"
| "parse_profiles E c (p # ps) status =
     parse_profiles E c ps (parse_blocks E c p (Blocks p) status)"

definition parse :: "env \<Rightarrow> Coverage \<Rightarrow> string \<Rightarrow> world \<Rightarrow> (Profile \<times> error option) \<times> world" where
  "parse E c data w =
     (let (profiles, err) = ParseProfilesFromReader E data;
          w' = happens E EvParseProfiles w
      in case err of
           Some e \<Rightarrow> ((Map.empty, Some e), w')
         | None \<Rightarrow> ((parse_profiles E c profiles Map.empty, None), w'))"

text \<open>
  \<open>getProfile\<close>: the deferred \<open>Close\<close> is registered before the error of \<open>os.Open\<close> is
  looked at, and runs when the function returns, on whatever handle \<open>os.Open\<close> gave;
  its error is dropped.
\<close>

definition getProfile :: "env \<Rightarrow> Coverage \<Rightarrow> world \<Rightarrow> (Profile \<times> error option) \<times> world" where
  "getProfile E c w =
     (let ((cf, err), w1) = Open E (filePath c) w;
          (ret, w2) =
            (case err of
               Some e \<Rightarrow> ((Map.empty, Some e), w1)
             | None \<Rightarrow>
                 (let ((profile, err), w') = parse E c (case cf of None \<Rightarrow> [] | Some f \<Rightarrow> fdata f) w1
                  in case err of
                       Some e \<Rightarrow> ((Map.empty, Some e), w')
                     | None \<Rightarrow> ((profile, None), w')));
          (_, w3) = Close E cf w2
      in (ret, w3))"

definition no_Result :: Result where
  "no_Result = \<lparr>Profile = Map.empty, Elapsed = 0\<rparr>"

definition Run :: "env \<Rightarrow> Coverage \<Rightarrow> world \<Rightarrow> (Result \<times> error option) \<times> world" where
  "Run E c w =
     (let (err, w1) = downloadModules E c w
      in case err of
           Some e \<Rightarrow> ((no_Result, Some (Wrapf ''impossible to download modules'' e)), w1)
         | None \<Rightarrow>
             (let ((elapsed, err), w2) = executeCoverage E c w1
              in case err of
                   Some e \<Rightarrow>
                     ((no_Result, Some (Wrapf ''impossible to executeCoverage coverage'' e)), w2)
                 | None \<Rightarrow>
                     (let ((profile, err), w3) = getProfile E c w2
                      in case err of
                           Some e \<Rightarrow>
                             ((no_Result,
                               Some (Wrapf ''an error occurred while generating coverage profile'' e)),
                              w3)
                         | None \<Rightarrow> ((\<lparr>Profile = profile, Elapsed = elapsed\<rparr>, None), w3))))"

section \<open>The unleash command: running\<close>

definition changePath ::
  "env \<Rightarrow> string list \<Rightarrow> world \<Rightarrow> (string \<times> string \<times> error option) \<times> world" where
  "changePath E args w =
     (let ((rd, err), w1) = Getwd E w
      in case err of
           Some e \<Rightarrow> (('''', '''', Some e), w1)
         | None \<Rightarrow>
             (let ((cp, _), w2) = Getwd E w1;
                  cp = (if length args > 0 then filepath_Abs E (cwd w2) (hd args) else cp)
              in if cp \<noteq> ''.''
                 then (case Chdir E cp w2 of
                         (Some e, w3) \<Rightarrow> (('''', '''', Some e), w3)
                       | (None, w3) \<Rightarrow> ((cp, rd, None), w3))
                 else ((cp, rd, None), w2)))"

text \<open>\<open>cleanUp\<close> logs the errors of the two calls and goes on.\<close>

definition cleanUp :: "env \<Rightarrow> string \<Rightarrow> string \<Rightarrow> world \<Rightarrow> world" where
  "cleanUp E wd rd w =
     (let (_, w1) = Chdir E rd w;
          (_, w2) = RemoveAll E wd w1
      in w2)"

text \<open>
  \<open>run\<close>: the module, the coverage, then the mutator. \<open>gomodule.Init\<close>, \<open>mutator.New\<close>
  with \<open>Run\<close> and \<open>workdir.NewDealer\<close> are in packages that are not among the sources:
  the environment gives what they return.
\<close>

definition run ::
  "env \<Rightarrow> config_keys \<Rightarrow> signal \<Rightarrow> string \<Rightarrow> string \<Rightarrow> world
     \<Rightarrow> (Results \<times> error option) \<times> world" where
  "run E keys ctx wdir currPath w =
     (let (m, err) = gomodule_Init E currPath;
          w1 = happens E (EvModuleInit currPath) w
      in case err of
           Some e \<Rightarrow> ((no_Results, Some (Wrapf (quoted currPath @ '' is not in a Go module'') e)), w1)
         | None \<Rightarrow>
             (let c = New E keys wdir m [];
                  ((p, err), w2) = Run E c w1
              in case err of
                   Some e \<Rightarrow> ((no_Results, Some (Wrapf ''failed to gather coverage'' e)), w2)
                 | None \<Rightarrow>
                     (let results = mutator_Run E ctx m p wdir;
                          w3 = happens E EvMutatorRun w2
                      in ((results, None), w3))))"

text \<open>
  \<open>runUnleash\<close>. The runner goroutine and \<open>wg.Wait()\<close> make the command wait for
  \<open>run\<close>; \<open>cancelled\<close> is true when the goroutine waiting on the context has called
  \<open>onCancel\<close> before the command reads the variable. The deferred \<open>cleanUp\<close> runs on
  every return after it was registered.
\<close>

definition runUnleash ::
  "env \<Rightarrow> config_keys \<Rightarrow> signal \<Rightarrow> string list \<Rightarrow> world \<Rightarrow> error option \<times> world" where
  "runUnleash E keys ctx args w =
     (let ((currPath, runDir, err), w1) = changePath E args w
      in case err of
           Some e \<Rightarrow> (Some e, w1)
         | None \<Rightarrow>
             (let ((wdir, err), w2) = MkdirTemp E (TempDir E) ''gremlins-'' w1
              in case err of
                   Some e \<Rightarrow> (Some (Wrapf ''impossible to create the workdir'' e), w2)
                 | None \<Rightarrow>
                     (let ((results, err), w3) = run E keys ctx wdir currPath w2;
                          cancelled = (ctx = SignalSeen);
                          (ret, w4) =
                            (case err of
                               Some e \<Rightarrow> (Some e, w3)
                             | None \<Rightarrow>
                                 if cancelled then (None, w3)
                                 else (report_Do E results, happens E EvReport w3))
                      in (ret, cleanUp E wdir runDir w4))))"

section \<open>Notions used in the statements\<close>

text \<open>The block \<open>parse\<close> builds from a block of the report: the four coordinates.\<close>

definition block_of :: "ProfileBlock \<Rightarrow> Block" where
  "block_of b =
     \<lparr>StartLine = ProfileBlock.StartLine b, StartCol = ProfileBlock.StartCol b,
      EndLine = ProfileBlock.EndLine b, EndCol = ProfileBlock.EndCol b\<rparr>"

text \<open>Reading a profile at a key, as Go reads a map: a missing key gives no blocks.\<close>

definition blocks_at :: "Profile \<Rightarrow> string \<Rightarrow> Block list" where
  "blocks_at prof k = (case prof k of None \<Rightarrow> [] | Some bl \<Rightarrow> bl)"

text \<open>
  The file path of a report entry as the specification words it: the module name
  prefix is stripped (\<open>strings.TrimPrefix\<close>), then the path is made relative to the
  package directory.
\<close>

definition TrimPrefix :: "string \<Rightarrow> string \<Rightarrow> string" where
  "TrimPrefix s pre = (if take (length pre) s = pre then drop (length pre) s else s)"

definition stripModulePrefix_spec :: "env \<Rightarrow> Coverage \<Rightarrow> cover_Profile \<Rightarrow> string" where
  "stripModulePrefix_spec E c p =
     fst (filepath_Rel E (PkgDir (module c)) (TrimPrefix (FileName p) (Name (module c) @ ''/'')))"

text \<open>
  Counting in a trace: the calls of \<open>os.MkdirTemp\<close> and the calls of \<open>report.Do\<close>.
  Two worlds have the same files when the working directory, the directories and
  these two counts agree.
\<close>

fun is_MkdirTemp :: "event \<Rightarrow> bool" where
  "is_MkdirTemp (EvMkdirTemp d p) = True"
| "is_MkdirTemp _ = False"

definition temp_calls :: "world \<Rightarrow> event list" where
  "temp_calls w = filter is_MkdirTemp (trace w)"

definition reported :: "world \<Rightarrow> nat" where
  "reported w = length (filter (\<lambda>ev. ev = EvReport) (trace w))"

definition same_fs :: "world \<Rightarrow> world \<Rightarrow> bool" where
  "same_fs w w' \<longleftrightarrow>
     cwd w' = cwd w \<and> dirs w' = dirs w \<and> temp_calls w' = temp_calls w
       \<and> reported w' = reported w"

definition download_ev :: event where
  "download_ev = EvCmdRun ''go'' [''mod'', ''download'']"

subsection \<open>A concrete run\<close>

text \<open>
  A module named \<open>m\<close> with a package directory \<open>algorithm\<close>, one covered and one
  uncovered block, in a world where every call succeeds.
\<close>

definition example_keys :: config_keys where
  "example_keys =
     \<lparr>UnleashDryRunKey = ''unleash.dry-run'', UnleashTagsKey = ''unleash.tags'',
      UnleashOutputKey = ''unleash.output'',
      UnleashThresholdEfficacyKey = ''unleash.threshold.efficacy'',
      UnleashThresholdMCoverageKey = ''unleash.threshold.mutant-coverage''\<rparr>"

definition example_catalog :: "string catalog" where
  "example_catalog =
     \<lparr>MutantTypes = [''CONDITIONALS_BOUNDARY'', ''INVERT_NEGATIVES''],
      String = (\<lambda>k. k),
      IsDefaultEnabled = (\<lambda>k. k = ''CONDITIONALS_BOUNDARY''),
      MutantTypeEnabledKey = (\<lambda>k. ''mutants.'' @ k @ ''.enabled'')\<rparr>"

definition example_profiles :: "cover_Profile list" where
  "example_profiles =
     [\<lparr>FileName = ''m/algorithm/x.go'', Mode = ''set'',
       Blocks =
         [\<lparr>ProfileBlock.StartLine = 3, ProfileBlock.StartCol = 1, ProfileBlock.EndLine = 5,
           ProfileBlock.EndCol = 2, NumStmt = 1, Count = 1\<rparr>,
          \<lparr>ProfileBlock.StartLine = 7, ProfileBlock.StartCol = 1, ProfileBlock.EndLine = 9,
           ProfileBlock.EndCol = 2, NumStmt = 2, Count = 0\<rparr>]\<rparr>]"

definition example_module :: GoModule where
  "example_module = \<lparr>Name = ''m'', Root = ''/home/proj'', PkgDir = ''.''\<rparr>"

definition example_env :: env where
  "example_env =
     \<lparr>getwd_err = None,
      filepath_Abs = (\<lambda>wd p. if take 1 p = ''/'' then p else wd @ ''/'' @ p),
      filepath_Rel = (\<lambda>base targ. (targ, None)),
      chdir_err = (\<lambda>d. None),
      TempDir = ''/tmp'',
      mkdirtemp_res = Inr ''4021'',
      removeall_err = (\<lambda>d. None),
      exec_Command = (\<lambda>n args. None),
      open_res = (\<lambda>f. Inr ''mode: set''),
      ParseProfilesFromReader = (\<lambda>d. (example_profiles, None)),
      config_string = (\<lambda>k. ''''),
      gomodule_Init = (\<lambda>p. (example_module, None)),
      mutator_Run = (\<lambda>s m r wd. \<lparr>Mutants = [Killed], MutantsElapsed = 5\<rparr>),
      report_Do = (\<lambda>r. None),
      step_time =
        (\<lambda>ev. case ev of
                EvCmdRun n args \<Rightarrow> (if args = [''mod'', ''download''] then 7 else 3)
              | _ \<Rightarrow> 1)\<rparr>"

definition example_world :: world where
  "example_world = \<lparr>cwd = ''/home/proj'', dirs = [], clock = 0, trace = []\<rparr>"

definition example_coverage :: Coverage where
  "example_coverage = New example_env example_keys ''/tmp/gremlins-4021'' example_module []"

section \<open>Flags of the unleash command\<close>

lemma ReplaceAll_single:
  "ReplaceAll s [c] [d] = map (\<lambda>x. if x = c then d else x) s"
proof (induction s)
  case Nil
  show ?case by (simp add: ReplaceAll.simps)
next
  case (Cons a s)
  show ?case
    by (subst ReplaceAll.simps) (simp add: Cons.IH)
qed

lemma setFlags_loop_NormalizeFunc:
  "NormalizeFunc (snd (setFlags_loop se fs cmd)) = NormalizeFunc cmd"
  by (induction fs arbitrary: cmd) (auto simp: flags_Set_def split: option.splits)

lemma setMutantTypeFlags_loop_NormalizeFunc:
  "NormalizeFunc (snd (setMutantTypeFlags_loop se cat mts cmd)) = NormalizeFunc cmd"
  by (induction mts arbitrary: cmd) (auto simp: flags_Set_def split: option.splits)

lemma setFlags_loop_ok:
  "setFlags_loop se fs cmd = (None, cmd') \<Longrightarrow> cmd' = cmd\<lparr>flags := flags cmd @ fs\<rparr>"
proof (induction fs arbitrary: cmd)
  case Nil
  then show ?case by simp
next
  case (Cons f fs)
  from Cons.prems have rest: "setFlags_loop se fs (cmd\<lparr>flags := flags cmd @ [f]\<rparr>) = (None, cmd')"
    by (auto simp: flags_Set_def split: option.splits)
  from Cons.IH [OF rest] show ?case by simp
qed

lemma setMutantTypeFlags_loop_ok:
  "setMutantTypeFlags_loop se cat mts cmd = (None, cmd') \<Longrightarrow>
     cmd' = cmd\<lparr>flags := flags cmd @ map (mutantTypeFlag cat) mts\<rparr>"
proof (induction mts arbitrary: cmd)
  case Nil
  then show ?case by simp
next
  case (Cons mt mts)
  from Cons.prems have rest:
    "setMutantTypeFlags_loop se cat mts
       (cmd\<lparr>flags := flags cmd @ [mutantTypeFlag cat mt]\<rparr>) = (None, cmd')"
    by (auto simp: flags_Set_def split: option.splits)
  from Cons.IH [OF rest] show ?case by simp
qed

lemma newUnleashCmd_flags:
  assumes "newUnleashCmd se keys cat = (Some cmd, None)"
  shows "flags cmd = fls keys @ map (mutantTypeFlag cat) (MutantTypes cat)"
  using assms
  by (auto simp: newUnleashCmd_def setFlagsOnCmd_def setMutantTypeFlags_def Let_def
      split: prod.splits option.splits dest!: setFlags_loop_ok setMutantTypeFlags_loop_ok)

lemma mutantTypeFlag_name:
  "Flag.Name (mutantTypeFlag cat mt) =
     map (\<lambda>c. if c = CHR ''_'' then CHR ''-'' else lower_char c) (String cat mt)"
proof -
  have "lower_char CHR ''-'' = CHR ''-''"
    by (simp add: lower_char_def)
  then show ?thesis
    by (simp add: mutantTypeFlag_def Let_def ReplaceAll_single ToLower_def)
qed

text \<open>
  C7. The function installed on the flag set of the unleash command replaces every
  \<open>.\<close> and every \<open>_\<close> of a flag name by \<open>-\<close> and leaves the other characters alone,
  so the normalised name contains neither separator; \<open>setFlagsOnCmd\<close> installs it
  whether or not registering the flags succeeds.
\<close>

theorem normalizeName_replaces_separators:
  "normalizeName name =
     map (\<lambda>c. if c = CHR ''.'' \<or> c = CHR ''_'' then CHR ''-'' else c) name
   \<and> CHR ''.'' \<notin> set (normalizeName name)
   \<and> CHR ''_'' \<notin> set (normalizeName name)
   \<and> NormalizeFunc (snd (setFlagsOnCmd set_err keys cat cmd)) = Some normalizeName"
proof -
  have eq: "normalizeName name =
      map (\<lambda>c. if c = CHR ''.'' \<or> c = CHR ''_'' then CHR ''-'' else c) name"
    by (simp add: normalizeName_def ReplaceAll_single)
  have inst: "NormalizeFunc (snd (setFlagsOnCmd set_err keys cat cmd)) = Some normalizeName"
  proof -
    let ?c2 = "cmd\<lparr>SortFlags := False, NormalizeFunc := Some normalizeName\<rparr>"
    obtain r c3 where l: "setFlags_loop set_err (fls keys) ?c2 = (r, c3)"
      by (cases "setFlags_loop set_err (fls keys) ?c2")
    have n3: "NormalizeFunc c3 = Some normalizeName"
      using setFlags_loop_NormalizeFunc [of set_err "fls keys" ?c2] l by simp
    show ?thesis
      using l n3 setMutantTypeFlags_loop_NormalizeFunc [of set_err cat "MutantTypes cat" c3]
      by (simp add: setFlagsOnCmd_def Let_def setMutantTypeFlags_def split: option.splits)
  qed
  show ?thesis
    using inst by (auto simp: eq)
qed

text \<open>
  C8. When the unleash command is built, its flags are the five fixed flags followed
  by one flag per mutant kind of the catalog, in the catalog's order; the flag of a
  kind is named by the kind's identifier with \<open>_\<close> replaced by \<open>-\<close> and the letters
  lowercased, and its default is the Boolean \<open>IsDefaultEnabled\<close> of the kind.
\<close>

theorem mutant_type_flags_registered:
  assumes "newUnleashCmd set_err keys cat = (Some cmd, None)"
  shows "flags cmd = fls keys @ map (mutantTypeFlag cat) (MutantTypes cat)
     \<and> (\<forall>mt \<in> set (MutantTypes cat).
          \<exists>f \<in> set (flags cmd).
            Flag.Name f = map (\<lambda>c. if c = CHR ''_'' then CHR ''-'' else lower_char c) (String cat mt)
          \<and> DefaultV f = BoolV (IsDefaultEnabled cat mt))"
proof -
  have fl: "flags cmd = fls keys @ map (mutantTypeFlag cat) (MutantTypes cat)"
    using assms by (rule newUnleashCmd_flags)
  have "\<exists>f \<in> set (flags cmd).
            Flag.Name f = map (\<lambda>c. if c = CHR ''_'' then CHR ''-'' else lower_char c) (String cat mt)
          \<and> DefaultV f = BoolV (IsDefaultEnabled cat mt)"
    if "mt \<in> set (MutantTypes cat)" for mt
  proof (rule bexI [of _ "mutantTypeFlag cat mt"])
    show "Flag.Name (mutantTypeFlag cat mt) =
        map (\<lambda>c. if c = CHR ''_'' then CHR ''-'' else lower_char c) (String cat mt)
      \<and> DefaultV (mutantTypeFlag cat mt) = BoolV (IsDefaultEnabled cat mt)"
      by (simp add: mutantTypeFlag_name) (simp add: mutantTypeFlag_def Let_def)
    show "mutantTypeFlag cat mt \<in> set (flags cmd)"
      using that by (simp add: fl)
  qed
  with fl show ?thesis by blast
qed

theorem mutant_type_flags_registered_witness:
  "\<exists>cmd. newUnleashCmd (\<lambda>c f. None) example_keys example_catalog = (Some cmd, None)
     \<and> map Flag.Name (flags cmd) =
         [''dry-run'', ''tags'', ''output'', ''threshold-efficacy'', ''threshold-mcover'',
          ''conditionals-boundary'', ''invert-negatives'']
     \<and> map DefaultV (drop 5 (flags cmd)) = [BoolV True, BoolV False]"
proof -
  obtain cmd where h: "newUnleashCmd (\<lambda>c f. None) example_keys example_catalog = (Some cmd, None)"
    by (simp add: newUnleashCmd_def setFlagsOnCmd_def setMutantTypeFlags_def flags_Set_def
        fls_def example_catalog_def Let_def)
  have n1: "Flag.Name (mutantTypeFlag example_catalog ''CONDITIONALS_BOUNDARY'')
      = ''conditionals-boundary''"
    by (simp add: mutantTypeFlag_name)
       (simp add: example_catalog_def lower_char_def char_of_def bit_Suc_0_iff)
  have n2: "Flag.Name (mutantTypeFlag example_catalog ''INVERT_NEGATIVES'') = ''invert-negatives''"
    by (simp add: mutantTypeFlag_name)
       (simp add: example_catalog_def lower_char_def char_of_def bit_Suc_0_iff)
  have d: "DefaultV (mutantTypeFlag example_catalog ''CONDITIONALS_BOUNDARY'') = BoolV True"
    "DefaultV (mutantTypeFlag example_catalog ''INVERT_NEGATIVES'') = BoolV False"
    by (simp_all add: mutantTypeFlag_def example_catalog_def Let_def)
  have mts: "MutantTypes example_catalog = [''CONDITIONALS_BOUNDARY'', ''INVERT_NEGATIVES'']"
    by (simp add: example_catalog_def)
  have "flags cmd = fls example_keys @ map (mutantTypeFlag example_catalog) (MutantTypes example_catalog)"
    using mutant_type_flags_registered [OF h] by blast
  then have "map Flag.Name (flags cmd) =
         [''dry-run'', ''tags'', ''output'', ''threshold-efficacy'', ''threshold-mcover'',
          ''conditionals-boundary'', ''invert-negatives'']
     \<and> map DefaultV (drop 5 (flags cmd)) = [BoolV True, BoolV False]"
    by (simp add: mts n1 n2 d fls_def paramDryRun_def paramBuildTags_def paramOutput_def
        paramThresholdEfficacy_def paramThresholdMCoverage_def)
  with h show ?thesis by (intro exI [of _ cmd] conjI) simp_all
qed

section \<open>Package coverage: the parsed profile\<close>

lemma parse_blocks_at:
  "blocks_at (parse_blocks E c p bs status) k =
     blocks_at status k
       @ (if removeModuleFromPath E c p = k
          then map block_of (filter (\<lambda>b. Count b \<noteq> 0) bs) else [])"
  by (induction bs arbitrary: status) (auto simp: blocks_at_def block_of_def Let_def)

lemma parse_profiles_at:
  "blocks_at (parse_profiles E c ps status) k =
     blocks_at status k @
       concat (map (\<lambda>p. map block_of (filter (\<lambda>b. Count b \<noteq> 0) (Blocks p)))
                (filter (\<lambda>p. removeModuleFromPath E c p = k) ps))"
  by (induction ps arbitrary: status) (auto simp: parse_blocks_at)

lemma parse_blocks_nonempty:
  "\<forall>k bl. status k = Some bl \<longrightarrow> bl \<noteq> [] \<Longrightarrow>
     \<forall>k bl. parse_blocks E c p bs status k = Some bl \<longrightarrow> bl \<noteq> []"
proof (induction bs arbitrary: status)
  case Nil
  then show ?case by simp
next
  case (Cons b bs)
  show ?case
  proof (cases "Count b = 0")
    case True
    with Cons show ?thesis by simp
  next
    case False
    let ?fn = "removeModuleFromPath E c p"
    let ?st = "status(?fn \<mapsto> (case status ?fn of None \<Rightarrow> [] | Some bl \<Rightarrow> bl) @ [block_of b])"
    have "\<forall>k bl. ?st k = Some bl \<longrightarrow> bl \<noteq> []"
      using Cons.prems by auto
    then have "\<forall>k bl. parse_blocks E c p bs ?st k = Some bl \<longrightarrow> bl \<noteq> []"
      by (rule Cons.IH)
    moreover have "parse_blocks E c p (b # bs) status = parse_blocks E c p bs ?st"
      using False by (simp add: Let_def block_of_def)
    ultimately show ?thesis by simp
  qed
qed

lemma parse_profiles_nonempty:
  "\<forall>k bl. status k = Some bl \<longrightarrow> bl \<noteq> [] \<Longrightarrow>
     \<forall>k bl. parse_profiles E c ps status k = Some bl \<longrightarrow> bl \<noteq> []"
proof (induction ps arbitrary: status)
  case Nil
  then show ?case by simp
next
  case (Cons p ps)
  have "\<forall>k bl. parse_blocks E c p (Blocks p) status k = Some bl \<longrightarrow> bl \<noteq> []"
    using Cons.prems by (rule parse_blocks_nonempty)
  from Cons.IH [OF this] show ?case by simp
qed

text \<open>
  C2. When the report parses, the blocks stored under a key are, in the order of the
  report, the blocks with a count other than zero of the entries with that key, each
  with its four coordinates copied. So every block with a nonzero count is in the
  profile under the key of its entry, every block of the profile comes from a block
  with a nonzero count, and a key is present only when it has a block.
\<close>

theorem parse_keeps_nonzero_blocks:
  assumes "ParseProfilesFromReader E data = (profiles, None)"
  shows "\<exists>prof. fst (parse E c data w) = (prof, None) \<and>
     (\<forall>k. blocks_at prof k =
            concat (map (\<lambda>p. map block_of (filter (\<lambda>b. Count b \<noteq> 0) (Blocks p)))
                     (filter (\<lambda>p. removeModuleFromPath E c p = k) profiles))) \<and>
     (\<forall>p \<in> set profiles. \<forall>b \<in> set (Blocks p).
        Count b \<noteq> 0 \<longrightarrow> block_of b \<in> set (blocks_at prof (removeModuleFromPath E c p))) \<and>
     (\<forall>k. \<forall>blk \<in> set (blocks_at prof k).
        \<exists>p \<in> set profiles. \<exists>b \<in> set (Blocks p).
          removeModuleFromPath E c p = k \<and> Count b \<noteq> 0 \<and> blk = block_of b) \<and>
     (\<forall>k. k \<in> dom prof \<longleftrightarrow> blocks_at prof k \<noteq> [])"
proof -
  let ?prof = "parse_profiles E c profiles Map.empty"
  have res: "fst (parse E c data w) = (?prof, None)"
    using assms by (simp add: parse_def)
  have at: "blocks_at ?prof k =
      concat (map (\<lambda>p. map block_of (filter (\<lambda>b. Count b \<noteq> 0) (Blocks p)))
               (filter (\<lambda>p. removeModuleFromPath E c p = k) profiles))" for k
    using parse_profiles_at [of E c profiles Map.empty k] by (simp add: blocks_at_def)
  have ne: "?prof k = Some bl \<Longrightarrow> bl \<noteq> []" for k bl
    using parse_profiles_nonempty [of Map.empty E c profiles] by simp
  have dom: "k \<in> dom ?prof \<longleftrightarrow> blocks_at ?prof k \<noteq> []" for k
    using ne [of k] by (auto simp: blocks_at_def split: option.splits)
  have fwd: "\<forall>p \<in> set profiles. \<forall>b \<in> set (Blocks p).
        Count b \<noteq> 0 \<longrightarrow> block_of b \<in> set (blocks_at ?prof (removeModuleFromPath E c p))"
    by (auto simp: at)
  have bwd: "\<forall>k. \<forall>blk \<in> set (blocks_at ?prof k).
        \<exists>p \<in> set profiles. \<exists>b \<in> set (Blocks p).
          removeModuleFromPath E c p = k \<and> Count b \<noteq> 0 \<and> blk = block_of b"
    by (auto simp: at)
  show ?thesis
    using res at fwd bwd dom by blast
qed

lemma example_removeModuleFromPath:
  "removeModuleFromPath example_env example_coverage
     \<lparr>FileName = ''m/algorithm/x.go'', Mode = md, Blocks = bs\<rparr> = ''algorithx.go''"
  by (simp add: removeModuleFromPath_def example_coverage_def New_def NewWithCmd_def
      example_env_def example_module_def ReplaceAll.simps)

theorem parse_keeps_nonzero_blocks_witness:
  "ParseProfilesFromReader example_env ''mode: set'' = (example_profiles, None)
   \<and> (\<exists>prof. fst (parse example_env example_coverage ''mode: set'' example_world) = (prof, None)
        \<and> blocks_at prof ''algorithx.go'' = [\<lparr>StartLine = 3, StartCol = 1, EndLine = 5, EndCol = 2\<rparr>]
        \<and> dom prof = {''algorithx.go''})"
proof -
  have h: "ParseProfilesFromReader example_env ''mode: set'' = (example_profiles, None)"
    by (simp add: example_env_def)
  from parse_keeps_nonzero_blocks [OF h, of example_coverage example_world]
  obtain prof where r: "fst (parse example_env example_coverage ''mode: set'' example_world) = (prof, None)"
    and at: "\<And>k. blocks_at prof k =
            concat (map (\<lambda>p. map block_of (filter (\<lambda>b. Count b \<noteq> 0) (Blocks p)))
                     (filter (\<lambda>p. removeModuleFromPath example_env example_coverage p = k)
                        example_profiles))"
    and dom: "\<And>k. k \<in> dom prof \<longleftrightarrow> blocks_at prof k \<noteq> []"
    by blast
  have a: "blocks_at prof k =
      (if k = ''algorithx.go'' then [\<lparr>StartLine = 3, StartCol = 1, EndLine = 5, EndCol = 2\<rparr>] else [])"
    for k
    unfolding at
    by (simp add: example_profiles_def example_removeModuleFromPath block_of_def)
  have "k \<in> dom prof \<longleftrightarrow> k = ''algorithx.go''" for k
    unfolding dom [of k] a [of k] by simp
  then have "dom prof = {''algorithx.go''}"
    by (intro set_eqI) simp
  with h r a show ?thesis
    by (intro conjI exI [of _ prof]) simp_all
qed

text \<open>
  C3. For the module \<open>m\<close>, package directory \<open>.\<close>, the report entry \<open>m/algorithm/x.go\<close>
  is stored under \<open>algorithx.go\<close>: the function removes every occurrence of \<open>m/\<close>, also
  the one that ends the directory name. Stripping the module prefix, as the
  specification words it, gives \<open>algorithm/x.go\<close>.
\<close>

theorem removeModuleFromPath_inner_occurrence:
  "removeModuleFromPath example_env example_coverage
     \<lparr>FileName = ''m/algorithm/x.go'', Mode = ''set'', Blocks = []\<rparr> = ''algorithx.go''
   \<and> stripModulePrefix_spec example_env example_coverage
     \<lparr>FileName = ''m/algorithm/x.go'', Mode = ''set'', Blocks = []\<rparr> = ''algorithm/x.go''
   \<and> removeModuleFromPath E (c\<lparr>module := \<lparr>Name = ''m'', Root = r, PkgDir = ''.''\<rparr>\<rparr>)
     \<lparr>FileName = ''m/algorithm/x.go'', Mode = md, Blocks = bs\<rparr>
       = fst (filepath_Rel E ''.'' ''algorithx.go'')"
  by (simp add: example_removeModuleFromPath)
     (simp add: removeModuleFromPath_def stripModulePrefix_spec_def TrimPrefix_def
        example_coverage_def New_def NewWithCmd_def example_env_def example_module_def
        ReplaceAll.simps split: prod.splits)

section \<open>Package coverage: running the tests\<close>

lemma New_fields:
  "cmdContext (New E keys wd m []) = exec_Command E"
  "workDir (New E keys wd m []) = wd"
  "path (New E keys wd m []) = ''./...''"
  "fileName (New E keys wd m []) = ''coverage''"
  "module (New E keys wd m []) = m"
  "buildTags (New E keys wd m []) = config_string E (UnleashTagsKey keys)"
  by (simp_all add: New_def NewWithCmd_def)

text \<open>
  C6. For the coverage object the command builds, the arguments of the \<open>go\<close> command are
  \<open>test\<close>, then \<open>-tags\<close> and the configured value when that value is not empty, then
  the coverage arguments; with the empty value no argument is \<open>-tags\<close>. The command
  \<open>executeCoverage\<close> runs is \<open>go\<close> with these arguments. The configured value is the
  one of the \<open>tags\<close> flag: among the fixed flags of the command exactly one is named
  \<open>tags\<close>, it is bound to the key \<open>configuration.UnleashTagsKey\<close>, which is the key
  \<open>NewWithCmd\<close> reads the build tags from, its shorthand is \<open>t\<close> and its default is the
  empty string.
\<close>

theorem tags_passed_to_coverage_command:
  "coverageArgs (New E keys wd m []) =
     (if config_string E (UnleashTagsKey keys) \<noteq> ''''
      then [''test'', ''-tags'', config_string E (UnleashTagsKey keys),
            ''-cover'', ''-coverprofile'', wd @ ''/coverage'', ''./...'']
      else [''test'', ''-cover'', ''-coverprofile'', wd @ ''/coverage'', ''./...''])
   \<and> (config_string E (UnleashTagsKey keys) = '''' \<longrightarrow>
        ''-tags'' \<notin> set (coverageArgs (New E keys wd m [])))
   \<and> trace (snd (executeCoverage E (New E keys wd m []) w)) =
        trace w @ [EvCmdRun ''go'' (coverageArgs (New E keys wd m []))]
   \<and> map DefaultV (filter (\<lambda>f. Flag.Name f = paramBuildTags) (fls keys)) = [StringV '''']
   \<and> map CfgKey (filter (\<lambda>f. Flag.Name f = paramBuildTags) (fls keys)) = [UnleashTagsKey keys]
   \<and> map Shorthand (filter (\<lambda>f. Flag.Name f = paramBuildTags) (fls keys)) = [''t'']
   \<and> buildTags (New E keys wd m []) = config_string E (UnleashTagsKey keys)"
proof -
  have "wd @ ''/coverage'' \<noteq> ''-tags''"
  proof
    assume "wd @ ''/coverage'' = ''-tags''"
    then have "last (wd @ ''/coverage'') = last ''-tags''" by simp
    then show False by simp
  qed
  moreover have "map DefaultV (filter (\<lambda>f. Flag.Name f = paramBuildTags) (fls keys)) = [StringV '''']"
    by (simp add: fls_def paramBuildTags_def paramDryRun_def paramOutput_def
        paramThresholdEfficacy_def paramThresholdMCoverage_def)
  moreover have "map CfgKey (filter (\<lambda>f. Flag.Name f = paramBuildTags) (fls keys))
      = [UnleashTagsKey keys]"
    by (simp add: fls_def paramBuildTags_def paramDryRun_def paramOutput_def
        paramThresholdEfficacy_def paramThresholdMCoverage_def)
  moreover have "map Shorthand (filter (\<lambda>f. Flag.Name f = paramBuildTags) (fls keys)) = [''t'']"
    by (simp add: fls_def paramBuildTags_def paramDryRun_def paramOutput_def
        paramThresholdEfficacy_def paramThresholdMCoverage_def)
  ultimately show ?thesis
    by (auto simp: coverageArgs_def New_fields filePath_def executeCoverage_def cmd_Run_def
        happens_def Let_def split: option.splits)
qed

theorem tags_passed_to_coverage_command_witness:
  "config_string example_env (UnleashTagsKey example_keys) = ''''
   \<and> ''-tags'' \<notin> set (coverageArgs (New example_env example_keys ''/tmp/w'' example_module []))
   \<and> coverageArgs (New example_env example_keys ''/tmp/w'' example_module []) =
       [''test'', ''-cover'', ''-coverprofile'', ''/tmp/w/coverage'', ''./...'']
   \<and> coverageArgs (New (example_env\<lparr>config_string := (\<lambda>k. ''integration,slow'')\<rparr>)
         example_keys ''/tmp/w'' example_module []) =
       [''test'', ''-tags'', ''integration,slow'', ''-cover'', ''-coverprofile'',
        ''/tmp/w/coverage'', ''./...'']
   \<and> map CfgKey (filter (\<lambda>f. Flag.Name f = paramBuildTags) (fls example_keys))
       = [''unleash.tags'']"
proof -
  have e: "config_string example_env (UnleashTagsKey example_keys) = ''''"
    by (simp add: example_env_def)
  have k: "UnleashTagsKey example_keys = ''unleash.tags''"
    by (simp add: example_keys_def)
  have n: "config_string (example_env\<lparr>config_string := (\<lambda>k. ''integration,slow'')\<rparr>)
      (UnleashTagsKey example_keys) = ''integration,slow''"
    by simp
  show ?thesis
    using e
      tags_passed_to_coverage_command [of example_env example_keys "''/tmp/w''" example_module
        example_world]
      tags_passed_to_coverage_command
        [of "example_env\<lparr>config_string := (\<lambda>k. ''integration,slow'')\<rparr>" example_keys
          "''/tmp/w''" example_module example_world]
    unfolding n k by simp
qed

lemma executeCoverage_ok:
  assumes "cmdContext c ''go'' (coverageArgs c) = None"
  shows "executeCoverage E c w =
     ((step_time E (EvCmdRun ''go'' (coverageArgs c)), None),
      happens E (EvCmdRun ''go'' (coverageArgs c)) w)"
  using assms by (simp add: executeCoverage_def cmd_Run_def happens_def Let_def)

lemma executeCoverage_err:
  assumes "cmdContext c ''go'' (coverageArgs c) = Some e"
  shows "executeCoverage E c w = ((0, Some e), happens E (EvCmdRun ''go'' (coverageArgs c)) w)"
  using assms by (simp add: executeCoverage_def cmd_Run_def happens_def Let_def)

lemma getProfile_open_err:
  assumes "open_res E (filePath c) = Inl e"
  shows "getProfile E c w =
     ((Map.empty, Some e), happens E (EvClose None) (happens E (EvOpen (filePath c)) w))"
  using assms by (simp add: getProfile_def Open_def Close_def)

lemma getProfile_parse_err:
  assumes "open_res E (filePath c) = Inr d" "ParseProfilesFromReader E d = (ps, Some e)"
  shows "getProfile E c w =
     ((Map.empty, Some e),
      happens E (EvClose (Some (filePath c)))
        (happens E EvParseProfiles (happens E (EvOpen (filePath c)) w)))"
  using assms by (simp add: getProfile_def Open_def Close_def parse_def)

lemma getProfile_ok:
  assumes "open_res E (filePath c) = Inr d" "ParseProfilesFromReader E d = (ps, None)"
  shows "getProfile E c w =
     ((parse_profiles E c ps Map.empty, None),
      happens E (EvClose (Some (filePath c)))
        (happens E EvParseProfiles (happens E (EvOpen (filePath c)) w)))"
  using assms by (simp add: getProfile_def Open_def Close_def parse_def)

text \<open>
  C10. When the report cannot be opened, \<open>getProfile\<close> returns the error of \<open>os.Open\<close>
  with the \<open>nil\<close> profile; the only calls it makes are the \<open>Open\<close> and the deferred
  \<open>Close\<close> on the \<open>nil\<close> handle, which returns \<open>ErrInvalid\<close> and is dropped; the report
  is not parsed.
\<close>

theorem getProfile_open_failure:
  assumes "open_res E (filePath c) = Inl e"
  shows "fst (getProfile E c w) = (Map.empty, Some e)
     \<and> trace (snd (getProfile E c w)) = trace w @ [EvOpen (filePath c), EvClose None]
     \<and> EvParseProfiles \<notin> set [EvOpen (filePath c), EvClose None]
     \<and> fst (Close E None (snd (Open E (filePath c) w))) = Some ErrInvalid"
  using assms by (simp add: getProfile_open_err happens_def Close_def)

theorem getProfile_open_failure_witness:
  "open_res (example_env\<lparr>open_res := (\<lambda>f. Inl (Err ''no such file or directory''))\<rparr>)
      (filePath example_coverage) = Inl (Err ''no such file or directory'')
   \<and> fst (getProfile (example_env\<lparr>open_res := (\<lambda>f. Inl (Err ''no such file or directory''))\<rparr>)
            example_coverage example_world)
       = (Map.empty, Some (Err ''no such file or directory''))
   \<and> trace (snd (getProfile
            (example_env\<lparr>open_res := (\<lambda>f. Inl (Err ''no such file or directory''))\<rparr>)
            example_coverage example_world))
       = [EvOpen ''/tmp/gremlins-4021/coverage'', EvClose None]"
proof -
  let ?E = "example_env\<lparr>open_res := (\<lambda>f. Inl (Err ''no such file or directory''))\<rparr>"
  have h: "open_res ?E (filePath example_coverage) = Inl (Err ''no such file or directory'')"
    by simp
  have f: "filePath example_coverage = ''/tmp/gremlins-4021/coverage''"
    by (simp add: filePath_def example_coverage_def New_fields)
  show ?thesis
    using h getProfile_open_failure [OF h, of example_world]
    by (simp add: f example_world_def)
qed

lemma Run_download_err:
  assumes "cmdContext c ''go'' [''mod'', ''download''] = Some e"
  shows "Run E c w = ((no_Result, Some (Wrapf ''impossible to download modules'' e)),
                      happens E download_ev w)"
  using assms by (simp add: Run_def downloadModules_def cmd_Run_def download_ev_def)

lemma Run_test_err:
  assumes "cmdContext c ''go'' [''mod'', ''download''] = None"
    and "cmdContext c ''go'' (coverageArgs c) = Some e"
  shows "Run E c w = ((no_Result, Some (Wrapf ''impossible to executeCoverage coverage'' e)),
                      happens E (EvCmdRun ''go'' (coverageArgs c)) (happens E download_ev w))"
  using assms
  by (simp add: Run_def downloadModules_def cmd_Run_def download_ev_def executeCoverage_err)

lemma Run_profile:
  assumes "cmdContext c ''go'' [''mod'', ''download''] = None"
    and "cmdContext c ''go'' (coverageArgs c) = None"
  shows "Run E c w =
     (let w2 = happens E (EvCmdRun ''go'' (coverageArgs c)) (happens E download_ev w);
          ((profile, err), w3) = getProfile E c w2
      in case err of
           Some e \<Rightarrow> ((no_Result,
                       Some (Wrapf ''an error occurred while generating coverage profile'' e)), w3)
         | None \<Rightarrow> ((\<lparr>Profile = profile,
                        Elapsed = step_time E (EvCmdRun ''go'' (coverageArgs c))\<rparr>, None), w3))"
  using assms
  by (simp add: Run_def downloadModules_def cmd_Run_def download_ev_def executeCoverage_ok Let_def)

lemma Run_success_inv:
  assumes "Run E c w = ((res, None), w')"
  shows "cmdContext c ''go'' [''mod'', ''download''] = None"
    and "cmdContext c ''go'' (coverageArgs c) = None"
    and "\<exists>d ps. open_res E (filePath c) = Inr d \<and> ParseProfilesFromReader E d = (ps, None)
           \<and> Profile res = parse_profiles E c ps Map.empty"
    and "Elapsed res = step_time E (EvCmdRun ''go'' (coverageArgs c))"
    and "w' = happens E (EvClose (Some (filePath c)))
        (happens E EvParseProfiles (happens E (EvOpen (filePath c))
          (happens E (EvCmdRun ''go'' (coverageArgs c)) (happens E download_ev w))))"
proof -
  show dl: "cmdContext c ''go'' [''mod'', ''download''] = None"
  proof (cases "cmdContext c ''go'' [''mod'', ''download'']")
    case (Some e)
    from Run_download_err [OF this, of E w] assms show ?thesis by simp
  qed simp
  show ts: "cmdContext c ''go'' (coverageArgs c) = None"
  proof (cases "cmdContext c ''go'' (coverageArgs c)")
    case (Some e)
    from Run_test_err [OF dl this, of E w] assms show ?thesis by simp
  qed simp
  note R = Run_profile [OF dl ts, of E w]
  show op: "\<exists>d ps. open_res E (filePath c) = Inr d \<and> ParseProfilesFromReader E d = (ps, None)
           \<and> Profile res = parse_profiles E c ps Map.empty"
  proof (cases "open_res E (filePath c)")
    case (Inl e)
    from R assms show ?thesis by (simp add: getProfile_open_err [OF Inl] Let_def)
  next
    case (Inr d)
    obtain ps err where P: "ParseProfilesFromReader E d = (ps, err)"
      by (cases "ParseProfilesFromReader E d")
    show ?thesis
    proof (cases err)
      case None
      with R assms Inr P show ?thesis by (auto simp: getProfile_ok Let_def)
    next
      case (Some e)
      with R assms Inr P show ?thesis by (simp add: getProfile_parse_err Let_def)
    qed
  qed
  then obtain d ps where "open_res E (filePath c) = Inr d" "ParseProfilesFromReader E d = (ps, None)"
    by blast
  from getProfile_ok [OF this] R assms
  show "Elapsed res = step_time E (EvCmdRun ''go'' (coverageArgs c))"
    and "w' = happens E (EvClose (Some (filePath c)))
        (happens E EvParseProfiles (happens E (EvOpen (filePath c))
          (happens E (EvCmdRun ''go'' (coverageArgs c)) (happens E download_ev w))))"
    by (auto simp: Let_def)
qed

lemma example_Run:
  "Run example_env example_coverage example_world =
     ((\<lparr>Profile = parse_profiles example_env example_coverage example_profiles Map.empty,
        Elapsed = 3\<rparr>, None),
      \<lparr>cwd = ''/home/proj'', dirs = [], clock = 13,
       trace = [EvCmdRun ''go'' [''mod'', ''download''],
                EvCmdRun ''go'' [''test'', ''-cover'', ''-coverprofile'',
                                 ''/tmp/gremlins-4021/coverage'', ''./...''],
                EvOpen ''/tmp/gremlins-4021/coverage'', EvParseProfiles,
                EvClose (Some ''/tmp/gremlins-4021/coverage'')]\<rparr>)"
proof -
  have c: "cmdContext example_coverage = (\<lambda>n args. None)"
    by (simp add: example_coverage_def New_fields example_env_def)
  have a: "coverageArgs example_coverage =
      [''test'', ''-cover'', ''-coverprofile'', ''/tmp/gremlins-4021/coverage'', ''./...'']"
    by (simp add: coverageArgs_def filePath_def example_coverage_def New_fields example_env_def)
  have f: "filePath example_coverage = ''/tmp/gremlins-4021/coverage''"
    by (simp add: filePath_def example_coverage_def New_fields)
  have o: "open_res example_env ''/tmp/gremlins-4021/coverage'' = Inr ''mode: set''"
    and p: "ParseProfilesFromReader example_env ''mode: set'' = (example_profiles, None)"
    by (simp_all add: example_env_def)
  have g: "getProfile example_env example_coverage w =
     ((parse_profiles example_env example_coverage example_profiles Map.empty, None),
      happens example_env (EvClose (Some ''/tmp/gremlins-4021/coverage''))
        (happens example_env EvParseProfiles
           (happens example_env (EvOpen ''/tmp/gremlins-4021/coverage'') w)))" for w
    using getProfile_ok [of example_env example_coverage, unfolded f, OF o p] .
  have st: "step_time example_env = (\<lambda>ev. case ev of
                EvCmdRun n args \<Rightarrow> (if args = [''mod'', ''download''] then 7 else 3)
              | _ \<Rightarrow> 1)"
    by (simp add: example_env_def)
  show ?thesis
    by (simp add: Run_profile c a g Let_def) (simp add: happens_def download_ev_def st example_world_def)
qed

text \<open>
  C9. When the coverage phase succeeds, \<open>Elapsed\<close> is the time the test command took;
  the time between the start and the end of the phase is that plus the times of the
  download, of opening and parsing the report and of closing it.
\<close>

theorem elapsed_is_test_command_time:
  assumes "Run E c w = ((res, None), w')"
  shows "Elapsed res = step_time E (EvCmdRun ''go'' (coverageArgs c))
     \<and> clock w' = clock w + step_time E (EvCmdRun ''go'' [''mod'', ''download''])
          + Elapsed res
          + step_time E (EvOpen (filePath c)) + step_time E EvParseProfiles
          + step_time E (EvClose (Some (filePath c)))"
  using Run_success_inv(4,5) [OF assms] by (simp add: happens_def download_ev_def)

theorem elapsed_is_test_command_time_witness:
  "\<exists>res w'. Run example_env example_coverage example_world = ((res, None), w')
     \<and> Elapsed res = 3 \<and> clock w' = 13
     \<and> step_time example_env (EvCmdRun ''go'' [''mod'', ''download'']) = 7"
proof -
  let ?res = "\<lparr>Profile = parse_profiles example_env example_coverage example_profiles Map.empty,
        Elapsed = 3\<rparr>"
  obtain w' where h: "Run example_env example_coverage example_world = ((?res, None), w')"
    and c: "clock w' = 13"
    using example_Run by simp
  have "Elapsed ?res = step_time example_env (EvCmdRun ''go'' (coverageArgs example_coverage))"
    using elapsed_is_test_command_time [OF h] by blast
  moreover have "step_time example_env (EvCmdRun ''go'' [''mod'', ''download'']) = 7"
    by (simp add: example_env_def)
  ultimately show ?thesis
    using h c by (intro exI [of _ ?res] exI [of _ w']) simp
qed

section \<open>The run of the unleash command\<close>

lemma run_unfold:
  assumes "gomodule_Init E cp = (m, None)"
    and "Run E (New E keys wd m []) (happens E (EvModuleInit cp) w) = ((r, err), w')"
  shows "run E keys ctx wd cp w =
     (case err of
        Some e \<Rightarrow> ((no_Results, Some (Wrapf ''failed to gather coverage'' e)), w')
      | None \<Rightarrow> ((mutator_Run E ctx m r wd, None), happens E EvMutatorRun w'))"
  using assms by (simp add: run_def Let_def split: option.splits)

text \<open>
  C5. With the module found: when the download, the test command, the opening of the
  report or its parsing fails, \<open>Run\<close> returns the zero result with an error, \<open>run\<close>
  returns no results with that error wrapped, and the mutator has not run; when none
  of them fails, \<open>Run\<close> returns the parsed profile and the duration of the test
  command, without error.
\<close>

theorem coverage_failure_aborts_run:
  assumes init: "gomodule_Init E currPath = (m, None)"
  shows "let c = New E keys wdir m [];
             w1 = happens E (EvModuleInit currPath) w;
             failed = (exec_Command E ''go'' [''mod'', ''download''] \<noteq> None
                     \<or> exec_Command E ''go'' (coverageArgs c) \<noteq> None
                     \<or> (case open_res E (filePath c) of
                           Inl e \<Rightarrow> True
                         | Inr d \<Rightarrow> snd (ParseProfilesFromReader E d) \<noteq> None))
         in (failed \<longrightarrow>
               (\<exists>e w'. Run E c w1 = ((no_Result, Some e), w')
                  \<and> run E keys ctx wdir currPath w =
                      ((no_Results, Some (Wrapf ''failed to gather coverage'' e)), w')
                  \<and> (\<exists>evs. trace w' = trace w @ evs \<and> EvMutatorRun \<notin> set evs)))
          \<and> (\<not> failed \<longrightarrow>
               (\<exists>d ps w'. open_res E (filePath c) = Inr d
                  \<and> ParseProfilesFromReader E d = (ps, None)
                  \<and> Run E c w1 =
                      ((\<lparr>Profile = parse_profiles E c ps Map.empty,
                         Elapsed = step_time E (EvCmdRun ''go'' (coverageArgs c))\<rparr>, None), w')))"
proof -
  define c where "c = New E keys wdir m []"
  define w1 where "w1 = happens E (EvModuleInit currPath) w"
  have cc: "cmdContext c = exec_Command E"
    by (simp add: c_def New_fields)
  note ru = run_unfold [OF init, of keys wdir w _ _ _ ctx, folded c_def w1_def]
  have tr: "trace w1 = trace w @ [EvModuleInit currPath]"
    by (simp add: w1_def happens_def)
  have A: "\<exists>e w'. Run E c w1 = ((no_Result, Some e), w')
                  \<and> run E keys ctx wdir currPath w =
                      ((no_Results, Some (Wrapf ''failed to gather coverage'' e)), w')
                  \<and> (\<exists>evs. trace w' = trace w @ evs \<and> EvMutatorRun \<notin> set evs)"
    if f: "exec_Command E ''go'' [''mod'', ''download''] \<noteq> None
          \<or> exec_Command E ''go'' (coverageArgs c) \<noteq> None
          \<or> (case open_res E (filePath c) of
                Inl e \<Rightarrow> True
              | Inr d \<Rightarrow> snd (ParseProfilesFromReader E d) \<noteq> None)"
  proof (cases "exec_Command E ''go'' [''mod'', ''download'']")
    case (Some e)
    then have R: "Run E c w1 = ((no_Result, Some (Wrapf ''impossible to download modules'' e)),
        happens E download_ev w1)"
      using Run_download_err [of c e E w1] by (simp add: cc)
    show ?thesis
      using R ru [OF R] by (simp add: happens_def tr download_ev_def)
  next
    case dl: None
    show ?thesis
    proof (cases "exec_Command E ''go'' (coverageArgs c)")
      case (Some e)
      then have R: "Run E c w1 =
          ((no_Result, Some (Wrapf ''impossible to executeCoverage coverage'' e)),
           happens E (EvCmdRun ''go'' (coverageArgs c)) (happens E download_ev w1))"
        using Run_test_err [of c e E w1] dl by (simp add: cc)
      show ?thesis
        using R ru [OF R] by (simp add: happens_def tr download_ev_def)
    next
      case ts: None
      note P = Run_profile [of c E w1, unfolded cc, OF dl ts]
      show ?thesis
      proof (cases "open_res E (filePath c)")
        case (Inl e)
        have R: "Run E c w1 =
          ((no_Result, Some (Wrapf ''an error occurred while generating coverage profile'' e)),
           happens E (EvClose None) (happens E (EvOpen (filePath c))
             (happens E (EvCmdRun ''go'' (coverageArgs c)) (happens E download_ev w1))))"
          using P by (simp add: getProfile_open_err [OF Inl] Let_def)
        show ?thesis
          using R ru [OF R] by (simp add: happens_def tr download_ev_def)
      next
        case (Inr d)
        with f dl ts obtain ps e where pe: "ParseProfilesFromReader E d = (ps, Some e)"
          by (cases "ParseProfilesFromReader E d") auto
        have R: "Run E c w1 =
          ((no_Result, Some (Wrapf ''an error occurred while generating coverage profile'' e)),
           happens E (EvClose (Some (filePath c))) (happens E EvParseProfiles
             (happens E (EvOpen (filePath c))
               (happens E (EvCmdRun ''go'' (coverageArgs c)) (happens E download_ev w1)))))"
          using P by (simp add: getProfile_parse_err [OF Inr pe] Let_def)
        show ?thesis
          using R ru [OF R] by (simp add: happens_def tr download_ev_def)
      qed
    qed
  qed
  have B: "\<exists>d ps w'. open_res E (filePath c) = Inr d
                  \<and> ParseProfilesFromReader E d = (ps, None)
                  \<and> Run E c w1 =
                      ((\<lparr>Profile = parse_profiles E c ps Map.empty,
                         Elapsed = step_time E (EvCmdRun ''go'' (coverageArgs c))\<rparr>, None), w')"
    if nf: "\<not> (exec_Command E ''go'' [''mod'', ''download''] \<noteq> None
          \<or> exec_Command E ''go'' (coverageArgs c) \<noteq> None
          \<or> (case open_res E (filePath c) of
                Inl e \<Rightarrow> True
              | Inr d \<Rightarrow> snd (ParseProfilesFromReader E d) \<noteq> None))"
  proof -
    from nf have dl: "exec_Command E ''go'' [''mod'', ''download''] = None"
      and ts: "exec_Command E ''go'' (coverageArgs c) = None" by auto
    from nf obtain d where op: "open_res E (filePath c) = Inr d"
      by (cases "open_res E (filePath c)") auto
    with nf obtain ps where pe: "ParseProfilesFromReader E d = (ps, None)"
      by (cases "ParseProfilesFromReader E d") auto
    note P = Run_profile [of c E w1, unfolded cc, OF dl ts]
    show ?thesis
      using P op pe by (simp add: getProfile_ok [OF op pe] Let_def)
  qed
  show ?thesis
    unfolding Let_def c_def [symmetric] w1_def [symmetric]
    using A B by blast
qed

theorem coverage_failure_aborts_run_witness:
  "gomodule_Init example_env ''/home/proj'' = (example_module, None)
   \<and> fst (run (example_env\<lparr>exec_Command := (\<lambda>n args. Some (Err ''exit status 1''))\<rparr>)
            example_keys NoSignal ''/tmp/gremlins-4021'' ''/home/proj'' example_world)
       = (no_Results,
          Some (Wrapf ''failed to gather coverage''
                 (Wrapf ''impossible to download modules'' (Err ''exit status 1''))))
   \<and> trace (snd (run (example_env\<lparr>exec_Command := (\<lambda>n args. Some (Err ''exit status 1''))\<rparr>)
            example_keys NoSignal ''/tmp/gremlins-4021'' ''/home/proj'' example_world))
       = [EvModuleInit ''/home/proj'', EvCmdRun ''go'' [''mod'', ''download'']]
   \<and> snd (fst (Run example_env example_coverage
                 (happens example_env (EvModuleInit ''/home/proj'') example_world))) = None"
proof -
  let ?E = "example_env\<lparr>exec_Command := (\<lambda>n args. Some (Err ''exit status 1''))\<rparr>"
  have i: "gomodule_Init example_env ''/home/proj'' = (example_module, None)"
    and i': "gomodule_Init ?E ''/home/proj'' = (example_module, None)"
    by (simp_all add: example_env_def)
  have bad: "run ?E example_keys NoSignal ''/tmp/gremlins-4021'' ''/home/proj'' example_world =
      ((no_Results, Some (Wrapf ''failed to gather coverage''
                 (Wrapf ''impossible to download modules'' (Err ''exit status 1'')))),
       happens ?E download_ev (happens ?E (EvModuleInit ''/home/proj'') example_world))"
    using coverage_failure_aborts_run
      [OF i', of example_keys "''/tmp/gremlins-4021''" example_world NoSignal]
    by (simp add: Let_def Run_download_err New_fields)
  have ok: "exec_Command example_env = (\<lambda>n args. None)"
    "open_res example_env = (\<lambda>f. Inr ''mode: set'')"
    "ParseProfilesFromReader example_env = (\<lambda>d. (example_profiles, None))"
    by (simp_all add: example_env_def)
  have good: "snd (fst (Run example_env example_coverage
                 (happens example_env (EvModuleInit ''/home/proj'') example_world))) = None"
    using coverage_failure_aborts_run
      [OF i, of example_keys "''/tmp/gremlins-4021''" example_world NoSignal]
    by (auto simp: Let_def ok example_coverage_def)
  show ?thesis
    using i good by (simp add: bad) (simp add: happens_def download_ev_def example_world_def)
qed

section \<open>The work root and the working directory\<close>

lemma same_fs_refl: "same_fs w w"
  by (simp add: same_fs_def)

lemma same_fs_trans: "same_fs w w1 \<Longrightarrow> same_fs w1 w2 \<Longrightarrow> same_fs w w2"
  by (simp add: same_fs_def)

lemma same_fs_happens:
  "\<not> is_MkdirTemp ev \<Longrightarrow> ev \<noteq> EvReport \<Longrightarrow> same_fs w w1 \<Longrightarrow> same_fs w (happens E ev w1)"
  by (simp add: same_fs_def happens_def temp_calls_def reported_def)

lemma same_fs_cmd_Run: "same_fs w (snd (cmd_Run E cc n args w))"
  by (simp add: cmd_Run_def same_fs_happens same_fs_refl)

lemma same_fs_getProfile: "same_fs w (snd (getProfile E c w))"
  by (auto simp: getProfile_def Open_def Close_def parse_def Let_def
      split: option.splits sum.splits prod.splits
      intro!: same_fs_happens same_fs_refl)

lemma same_fs_executeCoverage: "same_fs w (snd (executeCoverage E c w))"
  by (auto simp: executeCoverage_def cmd_Run_def Let_def split: option.splits
      intro!: same_fs_happens same_fs_refl)

lemma same_fs_Run: "same_fs w (snd (Run E c w))"
proof -
  obtain e1 w1 where d: "downloadModules E c w = (e1, w1)"
    by (cases "downloadModules E c w")
  obtain r2 e2 w2 where x: "executeCoverage E c w1 = ((r2, e2), w2)"
    by (cases "executeCoverage E c w1") auto
  obtain r3 e3 w3 where g: "getProfile E c w2 = ((r3, e3), w3)"
    by (cases "getProfile E c w2") auto
  have s1: "same_fs w w1"
    using same_fs_cmd_Run [of w E "cmdContext c" "''go''" "[''mod'', ''download'']"] d
    by (simp add: downloadModules_def)
  have s2: "same_fs w w2"
    using same_fs_executeCoverage [of w1 E c] x s1 by (auto intro: same_fs_trans)
  have s3: "same_fs w w3"
    using same_fs_getProfile [of w2 E c] g s2 by (auto intro: same_fs_trans)
  have "snd (Run E c w) = w1 \<or> snd (Run E c w) = w2 \<or> snd (Run E c w) = w3"
    by (simp add: Run_def d x g split: option.splits)
  with s1 s2 s3 show ?thesis by auto
qed

lemma same_fs_run: "same_fs w (snd (run E keys ctx wd cp w))"
proof -
  obtain m e0 where i: "gomodule_Init E cp = (m, e0)"
    by (cases "gomodule_Init E cp")
  let ?w1 = "happens E (EvModuleInit cp) w"
  obtain r e1 w2 where c: "Run E (New E keys wd m []) ?w1 = ((r, e1), w2)"
    by (cases "Run E (New E keys wd m []) ?w1") auto
  have s1: "same_fs w ?w1"
    by (simp add: same_fs_happens same_fs_refl)
  have s2: "same_fs w w2"
    using same_fs_Run [of ?w1 E "New E keys wd m []"] c s1 by (auto intro: same_fs_trans)
  have s3: "same_fs w (happens E EvMutatorRun w2)"
    using s2 by (simp add: same_fs_happens)
  have "snd (run E keys ctx wd cp w) = ?w1 \<or> snd (run E keys ctx wd cp w) = w2
      \<or> snd (run E keys ctx wd cp w) = happens E EvMutatorRun w2"
    by (simp add: run_def i c Let_def split: option.splits)
  with s1 s2 s3 show ?thesis by auto
qed

lemma changePath_ok:
  assumes "changePath E args w = ((cp, rd, None), w1)"
  shows "rd = cwd w" and "dirs w1 = dirs w" and "temp_calls w1 = temp_calls w"
    and "reported w1 = reported w"
  using assms
  by (auto simp: changePath_def Getwd_def Chdir_def happens_def temp_calls_def reported_def Let_def
      split: option.splits if_splits prod.splits)

lemma changePath_reported: "reported (snd (changePath E args w)) = reported w"
  by (auto simp: changePath_def Getwd_def Chdir_def happens_def reported_def Let_def
      split: option.splits if_splits prod.splits)

lemma MkdirTemp_reported: "reported (snd (MkdirTemp E d p w)) = reported w"
  by (auto simp: MkdirTemp_def happens_def reported_def Let_def split: sum.splits)

lemma cleanUp_trace: "trace (cleanUp E wd rd w) = trace w @ [EvChdir rd, EvRemoveAll wd]"
  by (simp add: cleanUp_def Chdir_def RemoveAll_def happens_def split: option.splits)

lemma cleanUp_reported: "reported (cleanUp E wd rd w) = reported w"
  by (simp add: reported_def cleanUp_trace)

lemma cleanUp_cwd: "chdir_err E rd = None \<Longrightarrow> cwd (cleanUp E wd rd w) = rd"
  by (simp add: cleanUp_def Chdir_def RemoveAll_def happens_def split: option.splits)

lemma cleanUp_dirs: "removeall_err E wd = None \<Longrightarrow> wd \<notin> set (dirs (cleanUp E wd rd w))"
  by (simp add: cleanUp_def Chdir_def RemoveAll_def happens_def inside_def split: option.splits)

lemma runUnleash_after_mkdir:
  assumes "changePath E args w = ((cp, rd, None), w1)" and "mkdirtemp_res E = Inr rnd"
  shows "runUnleash E keys ctx args w =
     (let wd = joinPath (TempDir E) (''gremlins-'' @ rnd);
          w2 = happens E (EvMkdirTemp (TempDir E) ''gremlins-'') (w1\<lparr>dirs := dirs w1 @ [wd]\<rparr>);
          ((results, err), w3) = run E keys ctx wd cp w2;
          (ret, w4) =
            (case err of
               Some e \<Rightarrow> (Some e, w3)
             | None \<Rightarrow>
                 if ctx = SignalSeen then (None, w3)
                 else (report_Do E results, happens E EvReport w3))
      in (ret, cleanUp E wd rd w4))"
  using assms by (simp add: runUnleash_def MkdirTemp_def Let_def)

lemma example_changePath:
  "changePath example_env [] example_world =
     ((''/home/proj'', ''/home/proj'', None),
      \<lparr>cwd = ''/home/proj'', dirs = [], clock = 3,
       trace = [EvGetwd, EvGetwd, EvChdir ''/home/proj'']\<rparr>)"
  by (simp add: changePath_def Getwd_def Chdir_def happens_def example_env_def example_world_def)

lemma example_run:
  "run example_env example_keys ctx ''/tmp/gremlins-4021'' ''/home/proj''
     \<lparr>cwd = ''/home/proj'', dirs = [''/tmp/gremlins-4021''], clock = 4,
      trace = [EvGetwd, EvGetwd, EvChdir ''/home/proj'', EvMkdirTemp ''/tmp'' ''gremlins-'']\<rparr> =
   ((\<lparr>Mutants = [Killed], MutantsElapsed = 5\<rparr>, None),
    \<lparr>cwd = ''/home/proj'', dirs = [''/tmp/gremlins-4021''], clock = 19,
      trace = [EvGetwd, EvGetwd, EvChdir ''/home/proj'', EvMkdirTemp ''/tmp'' ''gremlins-'',
               EvModuleInit ''/home/proj'',
               EvCmdRun ''go'' [''mod'', ''download''],
               EvCmdRun ''go'' [''test'', ''-cover'', ''-coverprofile'',
                                ''/tmp/gremlins-4021/coverage'', ''./...''],
               EvOpen ''/tmp/gremlins-4021/coverage'', EvParseProfiles,
               EvClose (Some ''/tmp/gremlins-4021/coverage''), EvMutatorRun]\<rparr>)"
  by (simp add: run_def Run_def downloadModules_def executeCoverage_def coverageArgs_def
      getProfile_def parse_def Open_def Close_def cmd_Run_def filePath_def New_def NewWithCmd_def
      Let_def example_env_def happens_def)

lemma example_runUnleash:
  "runUnleash example_env example_keys ctx [] example_world =
     (None,
      \<lparr>cwd = ''/home/proj'', dirs = [], clock = (if ctx = SignalSeen then 21 else 22),
       trace = [EvGetwd, EvGetwd, EvChdir ''/home/proj'', EvMkdirTemp ''/tmp'' ''gremlins-'',
                EvModuleInit ''/home/proj'',
                EvCmdRun ''go'' [''mod'', ''download''],
                EvCmdRun ''go'' [''test'', ''-cover'', ''-coverprofile'',
                                 ''/tmp/gremlins-4021/coverage'', ''./...''],
                EvOpen ''/tmp/gremlins-4021/coverage'', EvParseProfiles,
                EvClose (Some ''/tmp/gremlins-4021/coverage''), EvMutatorRun]
               @ (if ctx = SignalSeen then [] else [EvReport])
               @ [EvChdir ''/home/proj'', EvRemoveAll ''/tmp/gremlins-4021'']\<rparr>)"
proof -
  have mk: "mkdirtemp_res example_env = Inr ''4021''" and td: "TempDir example_env = ''/tmp''"
    and rp: "report_Do example_env = (\<lambda>r. None)"
    and ch: "chdir_err example_env = (\<lambda>d. None)" and rm: "removeall_err example_env = (\<lambda>d. None)"
    and st: "step_time example_env (EvMkdirTemp ''/tmp'' ''gremlins-'') = 1"
      "step_time example_env EvReport = 1"
      "step_time example_env (EvChdir ''/home/proj'') = 1"
      "step_time example_env (EvRemoveAll ''/tmp/gremlins-4021'') = 1"
    by (simp_all add: example_env_def)
  show ?thesis
    unfolding runUnleash_after_mkdir [OF example_changePath mk]
    by (simp add: td joinPath_def happens_def st example_run Let_def rp cleanUp_def Chdir_def
        RemoveAll_def ch rm inside_def)
qed

text \<open>
  C1, as stated, fails: in the concrete run the command that has seen the cancellation
  returns \<open>nil\<close>, which is what the run without cancellation returns, and it has not
  called \<open>report.Do\<close>, which the run without cancellation has.
\<close>

theorem cancelled_run_returns_like_success:
  "fst (runUnleash example_env example_keys SignalSeen [] example_world) = None
   \<and> fst (runUnleash example_env example_keys NoSignal [] example_world) = None
   \<and> reported (snd (runUnleash example_env example_keys SignalSeen [] example_world)) = 0
   \<and> reported (snd (runUnleash example_env example_keys NoSignal [] example_world)) = 1"
  by (simp add: example_runUnleash reported_def)

text \<open>
  C1, amended. When the command has seen the cancellation by the time \<open>run\<close> returns,
  it returns the error of \<open>run\<close>, which is \<open>nil\<close> when \<open>run\<close> gave results, and does not
  call \<open>report.Do\<close>; the clean-up runs.
\<close>

theorem cancelled_run_skips_report:
  assumes cp: "changePath E args w = ((cp, rd, None), w1)"
    and mk: "MkdirTemp E (TempDir E) ''gremlins-'' w1 = ((wd, None), w2)"
    and rn: "run E keys SignalSeen wd cp w2 = ((results, err), w3)"
  shows "runUnleash E keys SignalSeen args w = (err, cleanUp E wd rd w3)
     \<and> reported (cleanUp E wd rd w3) = reported w"
proof -
  have "runUnleash E keys SignalSeen args w = (err, cleanUp E wd rd w3)"
    using assms by (auto simp: runUnleash_def Let_def split: option.splits)
  moreover have "reported w3 = reported w2"
    using same_fs_run [of w2 E keys SignalSeen wd cp] rn by (simp add: same_fs_def)
  moreover have "reported w2 = reported w1"
    using MkdirTemp_reported [of E "TempDir E" "''gremlins-''" w1] mk by simp
  moreover have "reported w1 = reported w"
    using changePath_ok(4) [OF cp] .
  ultimately show ?thesis
    by (simp add: cleanUp_reported)
qed

theorem cancelled_run_skips_report_witness:
  "\<exists>w1 w2 w3 results.
     changePath example_env [] example_world = ((''/home/proj'', ''/home/proj'', None), w1)
   \<and> MkdirTemp example_env (TempDir example_env) ''gremlins-'' w1 = ((''/tmp/gremlins-4021'', None), w2)
   \<and> run example_env example_keys SignalSeen ''/tmp/gremlins-4021'' ''/home/proj'' w2
        = ((results, None), w3)
   \<and> runUnleash example_env example_keys SignalSeen [] example_world
        = (None, cleanUp example_env ''/tmp/gremlins-4021'' ''/home/proj'' w3)
   \<and> reported (cleanUp example_env ''/tmp/gremlins-4021'' ''/home/proj'' w3) = 0"
proof -
  let ?w1 = "\<lparr>cwd = ''/home/proj'', dirs = [], clock = 3,
       trace = [EvGetwd, EvGetwd, EvChdir ''/home/proj'']\<rparr>"
  let ?w2 = "\<lparr>cwd = ''/home/proj'', dirs = [''/tmp/gremlins-4021''], clock = 4,
      trace = [EvGetwd, EvGetwd, EvChdir ''/home/proj'', EvMkdirTemp ''/tmp'' ''gremlins-'']\<rparr>"
  have mk: "MkdirTemp example_env (TempDir example_env) ''gremlins-'' ?w1
      = ((''/tmp/gremlins-4021'', None), ?w2)"
    by (simp add: MkdirTemp_def joinPath_def happens_def example_env_def Let_def)
  obtain results w3 where
    rn: "run example_env example_keys SignalSeen ''/tmp/gremlins-4021'' ''/home/proj'' ?w2
        = ((results, None), w3)"
    using example_run [of SignalSeen] by simp
  have r0: "reported example_world = 0"
    by (simp add: reported_def example_world_def)
  from cancelled_run_skips_report [OF example_changePath mk rn] r0
  have "runUnleash example_env example_keys SignalSeen [] example_world
        = (None, cleanUp example_env ''/tmp/gremlins-4021'' ''/home/proj'' w3)
     \<and> reported (cleanUp example_env ''/tmp/gremlins-4021'' ''/home/proj'' w3) = 0"
    by simp
  with example_changePath mk rn show ?thesis
    by (intro exI [of _ ?w1] exI [of _ ?w2] exI [of _ w3] exI [of _ results]) simp
qed

text \<open>
  C4, as stated, fails: when \<open>os.MkdirTemp\<close> fails the command returns its error, no
  work root exists or was removed, and the working directory is the target directory,
  not the one the command started in.
\<close>

theorem no_work_root_and_no_restore_when_MkdirTemp_fails:
  "fst (runUnleash (example_env\<lparr>mkdirtemp_res := Inl (Err ''no space left on device'')\<rparr>)
          example_keys NoSignal [''/srv/app''] example_world)
     = Some (Wrapf ''impossible to create the workdir'' (Err ''no space left on device''))
   \<and> dirs (snd (runUnleash (example_env\<lparr>mkdirtemp_res := Inl (Err ''no space left on device'')\<rparr>)
          example_keys NoSignal [''/srv/app''] example_world)) = []
   \<and> trace (snd (runUnleash (example_env\<lparr>mkdirtemp_res := Inl (Err ''no space left on device'')\<rparr>)
          example_keys NoSignal [''/srv/app''] example_world))
     = [EvGetwd, EvGetwd, EvChdir ''/srv/app'', EvMkdirTemp ''/tmp'' ''gremlins-'']
   \<and> cwd (snd (runUnleash (example_env\<lparr>mkdirtemp_res := Inl (Err ''no space left on device'')\<rparr>)
          example_keys NoSignal [''/srv/app''] example_world)) = ''/srv/app''
   \<and> cwd example_world = ''/home/proj''"
  by (simp add: runUnleash_def changePath_def Getwd_def Chdir_def MkdirTemp_def happens_def
      example_env_def example_world_def Let_def)

text \<open>
  C4, amended. When the command has changed to the target directory and
  \<open>os.MkdirTemp\<close> succeeds, the run makes exactly one call of \<open>os.MkdirTemp\<close>, in the
  temporary directory of the system with the pattern \<open>gremlins-\<close>, and whatever \<open>run\<close>
  returns the last two calls of the command are the change back to the directory it
  started in and the removal of the work root; when the first of them succeeds the
  working directory is the one the command started in, and when the second succeeds
  the work root does not exist.
\<close>

theorem work_root_created_once_and_cleaned_up:
  assumes cp: "changePath E args w = ((cp, rd, None), w1)"
    and mk: "mkdirtemp_res E = Inr rnd"
  shows "let wd = joinPath (TempDir E) (''gremlins-'' @ rnd);
             w' = snd (runUnleash E keys ctx args w)
         in temp_calls w' = temp_calls w @ [EvMkdirTemp (TempDir E) ''gremlins-'']
          \<and> (\<exists>t. trace w' = t @ [EvChdir (cwd w), EvRemoveAll wd])
          \<and> (chdir_err E (cwd w) = None \<longrightarrow> cwd w' = cwd w)
          \<and> (removeall_err E wd = None \<longrightarrow> wd \<notin> set (dirs w'))"
proof -
  define wd where "wd = joinPath (TempDir E) (''gremlins-'' @ rnd)"
  define w2 where
    "w2 = happens E (EvMkdirTemp (TempDir E) ''gremlins-'') (w1\<lparr>dirs := dirs w1 @ [wd]\<rparr>)"
  obtain results err w3 where r: "run E keys ctx wd cp w2 = ((results, err), w3)"
    by (cases "run E keys ctx wd cp w2") auto
  define w4 where "w4 = (if err = None \<and> ctx \<noteq> SignalSeen then happens E EvReport w3 else w3)"
  have rd: "rd = cwd w"
    using changePath_ok(1) [OF cp] .
  have fin: "snd (runUnleash E keys ctx args w) = cleanUp E wd (cwd w) w4"
    using runUnleash_after_mkdir [OF cp mk, of keys ctx] r
    by (auto simp: Let_def wd_def w2_def w4_def rd split: option.splits)
  have c2: "temp_calls w2 = temp_calls w @ [EvMkdirTemp (TempDir E) ''gremlins-'']"
    using changePath_ok(3) [OF cp] by (simp add: w2_def happens_def temp_calls_def)
  have "same_fs w2 w3"
    using same_fs_run [of w2 E keys ctx wd cp] r by simp
  then have c3: "temp_calls w3 = temp_calls w @ [EvMkdirTemp (TempDir E) ''gremlins-'']"
    using c2 by (simp add: same_fs_def)
  then have c4: "temp_calls w4 = temp_calls w @ [EvMkdirTemp (TempDir E) ''gremlins-'']"
    by (simp add: w4_def happens_def temp_calls_def)
  have c5: "temp_calls (cleanUp E wd (cwd w) w4)
      = temp_calls w @ [EvMkdirTemp (TempDir E) ''gremlins-'']"
    using c4 by (simp add: temp_calls_def cleanUp_trace)
  show ?thesis
    unfolding Let_def fin wd_def [symmetric]
    using c5 cleanUp_trace [of E wd "cwd w" w4] cleanUp_cwd [of E "cwd w" wd w4]
      cleanUp_dirs [of E wd "cwd w" w4]
    by auto
qed

theorem work_root_created_once_and_cleaned_up_witness:
  "(\<exists>w1. changePath example_env [] example_world = ((''/home/proj'', ''/home/proj'', None), w1))
   \<and> mkdirtemp_res example_env = Inr ''4021''
   \<and> chdir_err example_env (cwd example_world) = None
   \<and> removeall_err example_env ''/tmp/gremlins-4021'' = None
   \<and> temp_calls (snd (runUnleash example_env example_keys NoSignal [] example_world))
        = [EvMkdirTemp ''/tmp'' ''gremlins-'']
   \<and> cwd (snd (runUnleash example_env example_keys NoSignal [] example_world)) = ''/home/proj''
   \<and> ''/tmp/gremlins-4021'' \<notin>
        set (dirs (snd (runUnleash example_env example_keys NoSignal [] example_world)))"
proof -
  have mk: "mkdirtemp_res example_env = Inr ''4021''"
    and ch: "chdir_err example_env (cwd example_world) = None"
    and rm: "removeall_err example_env ''/tmp/gremlins-4021'' = None"
    and td: "TempDir example_env = ''/tmp''"
    by (simp_all add: example_env_def)
  have j: "joinPath ''/tmp'' ''gremlins-4021'' = ''/tmp/gremlins-4021''"
    by (simp add: joinPath_def)
  have w0: "temp_calls example_world = []" "cwd example_world = ''/home/proj''"
    by (simp_all add: temp_calls_def example_world_def)
  from work_root_created_once_and_cleaned_up
    [OF example_changePath mk, of example_keys NoSignal]
  have "temp_calls (snd (runUnleash example_env example_keys NoSignal [] example_world))
        = [EvMkdirTemp ''/tmp'' ''gremlins-'']
   \<and> cwd (snd (runUnleash example_env example_keys NoSignal [] example_world)) = ''/home/proj''
   \<and> ''/tmp/gremlins-4021'' \<notin>
        set (dirs (snd (runUnleash example_env example_keys NoSignal [] example_world)))"
    using ch rm by (simp add: Let_def td j w0)
  with example_changePath mk ch rm show ?thesis
    by simp
qed

end
